theory Spec2Isabelle
  imports Complex_Main
begin

section \<open>Python values\<close>

text \<open>
  The executor receives its messages from \<^verbatim>\<open>json.loads\<close> and handles them as untyped
  Python values. The values \<^verbatim>\<open>json.loads\<close> can produce are modelled by \<open>pyval\<close>.

  A Python float is an IEEE double. The model keeps what the handlers test of it: whether it
  is zero, its sign, and whether it is an infinity or a NaN. \<open>Finite x\<close> stands for the
  double nearest to the rational \<open>x\<close>, where \<open>x\<close> is zero or of a magnitude that does
  not round to zero or to an infinity; the rounding to 53 bits inside the range of the
  doubles is not carried out, the rounding to zero below the smallest subnormal and to an
  infinity above the largest double is (\<open>round_double\<close>).

  A dict is an association list read with \<open>map_of\<close>. The strings of the model are the
  ASCII strings, the values of \<^typ>\<open>String.literal\<close>: a Python string with a character
  outside ASCII is not a value of the model. On ASCII strings \<^verbatim>\<open>str.upper\<close>,
  \<^verbatim>\<open>str.lower\<close> and \<^verbatim>\<open>float\<close> do not depend on the Unicode tables.
\<close>

datatype pyfloat = Finite rat | PosInf | NegInf | NaN

datatype pyval =
    PNone
  | PBool bool
  | PInt int
  | PFloat pyfloat
  | PStr String.literal
  | PList "pyval list"
  | PDict "(String.literal \<times> pyval) list"

text \<open>
  The handlers catch \<^verbatim>\<open>Exception\<close>. The exceptions of the model are the ones the
  built-in operations raise, \<open>AdapterError\<close> for whatever exception the trading client
  raises, all of them instances of \<^verbatim>\<open>Exception\<close>, and
  \<^verbatim>\<open>asyncio.CancelledError\<close>, which is raised at an \<^verbatim>\<open>await\<close> when the task is
  cancelled and is a \<^verbatim>\<open>BaseException\<close> but no \<^verbatim>\<open>Exception\<close>
  (\<^verbatim>\<open>setup.py\<close> asks for Python 3.8 or later). \<open>is_Exception e\<close> is
  \<^verbatim>\<open>isinstance(e, Exception)\<close>, the test of \<^verbatim>\<open>except Exception\<close>. The other
  exceptions that are no \<^verbatim>\<open>Exception\<close> are not modelled: the program raises none, and
  \<^verbatim>\<open>__init__\<close> replaces the handler of \<^verbatim>\<open>SIGINT\<close> that would raise
  \<^verbatim>\<open>KeyboardInterrupt\<close>.
\<close>

datatype py_exception =
    AttributeError
  | TypeError
  | ValueError String.literal
  | OverflowError
  | AdapterError String.literal
  | CancelledError

fun is_Exception :: "py_exception \<Rightarrow> bool" where
  "is_Exception CancelledError = False"
| "is_Exception _ = True"

subsection \<open>Truth value testing\<close>

fun float_truthy :: "pyfloat \<Rightarrow> bool" where
  "float_truthy (Finite x) = (x \<noteq> 0)"
| "float_truthy PosInf = True"
| "float_truthy NegInf = True"
| "float_truthy NaN = True"

fun py_truthy :: "pyval \<Rightarrow> bool" where
  "py_truthy PNone = False"
| "py_truthy (PBool b) = b"
| "py_truthy (PInt i) = (i \<noteq> 0)"
| "py_truthy (PFloat f) = float_truthy f"
| "py_truthy (PStr s) = (s \<noteq> STR '''')"
| "py_truthy (PList xs) = (xs \<noteq> [])"
| "py_truthy (PDict kvs) = (kvs \<noteq> [])"

subsection \<open>\<^verbatim>\<open>dict.get\<close>, \<^verbatim>\<open>str.upper\<close>, \<^verbatim>\<open>str.lower\<close>\<close>

text \<open>\<^verbatim>\<open>d.get(k, default)\<close>; on a value that is not a dict the attribute lookup fails.\<close>

fun py_get :: "pyval \<Rightarrow> String.literal \<Rightarrow> pyval \<Rightarrow> py_exception + pyval" where
  "py_get (PDict kvs) k dflt = (case map_of kvs k of None \<Rightarrow> Inr dflt | Some v \<Rightarrow> Inr v)"
| "py_get _ k dflt = Inl AttributeError"

definition upper_char :: "char \<Rightarrow> char" where
  "upper_char c =
     (let n = (of_char c :: nat) in if 97 \<le> n \<and> n \<le> 122 then char_of (n - 32) else c)"

definition lower_char :: "char \<Rightarrow> char" where
  "lower_char c =
     (let n = (of_char c :: nat) in if 65 \<le> n \<and> n \<le> 90 then char_of (n + 32) else c)"

definition upper :: "String.literal \<Rightarrow> String.literal" where
  "upper s = String.implode (map upper_char (String.explode s))"

definition lower :: "String.literal \<Rightarrow> String.literal" where
  "lower s = String.implode (map lower_char (String.explode s))"

fun py_upper :: "pyval \<Rightarrow> py_exception + String.literal" where
  "py_upper (PStr s) = Inr (upper s)"
| "py_upper _ = Inl AttributeError"

fun py_lower :: "pyval \<Rightarrow> py_exception + String.literal" where
  "py_lower (PStr s) = Inr (lower s)"
| "py_lower _ = Inl AttributeError"

subsection \<open>\<^verbatim>\<open>float()\<close>\<close>

text \<open>
  Rounding a rational to a double, as far as the model follows it: a magnitude of at least
  \<open>2^1024 - 2^970\<close> (half way between the largest double and \<open>2^1024\<close>) overflows,
  a magnitude of at most \<open>2^-1075\<close> (half the smallest subnormal) rounds to zero.
\<close>

definition double_overflow :: rat where
  "double_overflow = 2 ^ 1024 - 2 ^ 970"

definition double_underflow :: rat where
  "double_underflow = 1 / 2 ^ 1075"

definition round_double :: "rat \<Rightarrow> pyfloat" where
  "round_double x =
     (if double_overflow \<le> \<bar>x\<bar> then (if x < 0 then NegInf else PosInf)
      else if \<bar>x\<bar> \<le> double_underflow then Finite 0
      else Finite x)"

text \<open>
  The strings \<^verbatim>\<open>float()\<close> accepts, after stripping white space (of an ASCII string:
  the characters 9 to 13 and the blank):
  \<^verbatim>\<open>[sign] (floatnumber | "inf" | "infinity" | "nan")\<close>, the words in any case, where
  \<^verbatim>\<open>floatnumber ::= number [exponent]\<close>,
  \<^verbatim>\<open>number ::= [digitpart] "." digitpart | digitpart ["."]\<close>,
  \<^verbatim>\<open>exponent ::= ("e" | "E") [sign] digitpart\<close> and
  \<^verbatim>\<open>digitpart ::= digit (["_"] digit)*\<close>.
\<close>

definition is_space :: "char \<Rightarrow> bool" where
  "is_space c = (let n = (of_char c :: nat) in (9 \<le> n \<and> n \<le> 13) \<or> n = 32)"

definition strip :: "string \<Rightarrow> string" where
  "strip s = rev (dropWhile is_space (rev (dropWhile is_space s)))"

definition is_digit :: "char \<Rightarrow> bool" where
  "is_digit c = (let n = (of_char c :: nat) in 48 \<le> n \<and> n \<le> 57)"

definition digit_val :: "char \<Rightarrow> nat" where
  "digit_val c = of_char c - 48"

text \<open>\<open>digit_tail\<close> reads \<^verbatim>\<open>(["_"] digit)*\<close> and returns the digits and the rest of the input.\<close>

fun digit_tail :: "string \<Rightarrow> string \<times> string" where
  "digit_tail [] = ([], [])"
| "digit_tail [c] = (if is_digit c then ([c], []) else ([], [c]))"
| "digit_tail (c # d # cs) =
     (if is_digit c then (case digit_tail (d # cs) of (ds, r) \<Rightarrow> (c # ds, r))
      else if c = CHR ''_'' \<and> is_digit d then (case digit_tail cs of (ds, r) \<Rightarrow> (d # ds, r))
      else ([], c # d # cs))"

text \<open>\<open>digitpart\<close> reads a digitpart if there is one; no digits means there is none.\<close>

fun digitpart :: "string \<Rightarrow> string \<times> string" where
  "digitpart [] = ([], [])"
| "digitpart (c # cs) =
     (if is_digit c then (case digit_tail cs of (ds, r) \<Rightarrow> (c # ds, r)) else ([], c # cs))"

definition digits_val :: "string \<Rightarrow> nat" where
  "digits_val ds = foldl (\<lambda>acc c. 10 * acc + digit_val c) 0 ds"

text \<open>The exponent: \<open>Some 0\<close> at the end of the input, \<open>None\<close> when what is left is no exponent.\<close>

fun exponent :: "string \<Rightarrow> int option" where
  "exponent [] = Some 0"
| "exponent (c # cs) =
     (if c = CHR ''e'' \<or> c = CHR ''E'' then
        (let (neg, r) = (case cs of
                           [] \<Rightarrow> (False, [])
                         | s # r' \<Rightarrow> if s = CHR ''-'' then (True, r')
                                    else if s = CHR ''+'' then (False, r') else (False, cs))
         in case digitpart r of
              (ds, rest) \<Rightarrow>
                if ds = [] \<or> rest \<noteq> [] then None
                else Some (if neg then - int (digits_val ds) else int (digits_val ds)))
      else None)"

definition scale10 :: "nat \<Rightarrow> int \<Rightarrow> rat" where
  "scale10 m e = (if 0 \<le> e then of_nat m * 10 ^ nat e else of_nat m / 10 ^ nat (- e))"

text \<open>The exact value of a floatnumber, \<open>None\<close> when the string is not one.\<close>

definition floatnumber :: "string \<Rightarrow> rat option" where
  "floatnumber s =
     (case digitpart s of
        (ip, r1) \<Rightarrow>
          (let (point, fp, r2) =
                 (case r1 of
                    [] \<Rightarrow> (False, [], [])
                  | c # r \<Rightarrow> if c = CHR ''.'' then (case digitpart r of (fp, r2) \<Rightarrow> (True, fp, r2))
                            else (False, [], r1))
           in if ip = [] \<and> fp = [] then None
              else (case exponent r2 of
                      None \<Rightarrow> None
                    | Some e \<Rightarrow> Some (scale10 (digits_val (ip @ fp)) (e - int (length fp))))))"

text \<open>What a string denotes before rounding, \<open>None\<close> when \<^verbatim>\<open>float()\<close> rejects it.\<close>

datatype float_literal = Number rat | Infinity bool | NotANumber

definition parse_float :: "string \<Rightarrow> float_literal option" where
  "parse_float s0 =
     (let s = strip s0;
          (neg, body) = (case s of
                           [] \<Rightarrow> (False, [])
                         | c # cs \<Rightarrow> if c = CHR ''-'' then (True, cs)
                                    else if c = CHR ''+'' then (False, cs) else (False, s));
          w = map lower_char body
      in if w = ''inf'' \<or> w = ''infinity'' then Some (Infinity neg)
         else if w = ''nan'' then Some NotANumber
         else (case floatnumber body of
                 None \<Rightarrow> None
               | Some x \<Rightarrow> Some (Number (if neg then - x else x))))"

fun round_literal :: "float_literal \<Rightarrow> pyfloat" where
  "round_literal (Number x) = round_double x"
| "round_literal (Infinity neg) = (if neg then NegInf else PosInf)"
| "round_literal NotANumber = NaN"

definition float_of_string :: "String.literal \<Rightarrow> pyfloat option" where
  "float_of_string s = map_option round_literal (parse_float (String.explode s))"

text \<open>
  \<^verbatim>\<open>float(x)\<close>: a string is parsed (\<^verbatim>\<open>ValueError\<close> when it is no number; the
  message of the model shows the string as it is, Python shows its \<^verbatim>\<open>repr\<close>), an int is
  converted (\<^verbatim>\<open>OverflowError\<close> when it is too large for a double), a bool is 1.0 or 0.0,
  a float is itself, and every other value is a \<^verbatim>\<open>TypeError\<close>.
\<close>

fun py_float :: "pyval \<Rightarrow> py_exception + pyfloat" where
  "py_float (PFloat f) = Inr f"
| "py_float (PInt i) =
     (if double_overflow \<le> \<bar>of_int i\<bar> then Inl OverflowError else Inr (Finite (of_int i)))"
| "py_float (PBool b) = Inr (Finite (if b then 1 else 0))"
| "py_float (PStr s) =
     (case float_of_string s of
        None \<Rightarrow> Inl (ValueError (STR ''could not convert string to float: '' + s))
      | Some f \<Rightarrow> Inr f)"
| "py_float PNone = Inl TypeError"
| "py_float (PList xs) = Inl TypeError"
| "py_float (PDict kvs) = Inl TypeError"

section \<open>The trading client and the executor\<close>

text \<open>
  The trading client (\<^verbatim>\<open>self.hl_client\<close>) is outside the repository. It is modelled by
  its interface: the calls the executor makes of it, and for each call, after a given
  history, what the client answers: a value, or an exception (\<open>Inl\<close>, with its message),
  which is an instance of \<^verbatim>\<open>Exception\<close>. The arguments of a call are the Python values
  the handler passes.

  \<^verbatim>\<open>is_authenticated()\<close> is an ordinary call. The other three are coroutines that the
  handlers \<^verbatim>\<open>await\<close>: while such a call is pending, \<^verbatim>\<open>stop()\<close> can cancel the task
  the handler runs in, and then the \<^verbatim>\<open>await\<close> raises
  \<^verbatim>\<open>asyncio.CancelledError\<close>. \<open>cancelled client h c\<close> says whether that happens to the
  call \<open>c\<close> awaited after the history \<open>h\<close>.
\<close>

datatype call =
    IsAuthenticated
  | ExecutePerpTrade pyval pyval pyval pyval  \<comment> \<open>symbol, size, side, reduce_only\<close>
  | SetStopLoss pyval pyval pyval pyval       \<comment> \<open>symbol, size, trigger_price, side\<close>
  | SetTakeProfit pyval pyval pyval pyval     \<comment> \<open>symbol, size, trigger_price, side\<close>

datatype handler = TradeHandler | StopLossHandler | TakeProfitHandler

text \<open>What is observed of a run: the handlers \<^verbatim>\<open>handle_action\<close> invokes and the calls
  made of the trading client, in order.\<close>

datatype event = Invoked handler pyval | Called call

record adapter =
  answers :: "event list \<Rightarrow> call \<Rightarrow> String.literal + pyval"
  cancelled :: "event list \<Rightarrow> call \<Rightarrow> bool"

text \<open>An \<^verbatim>\<open>asyncio\<close> task: scheduled and not yet done, or done with the result or the
  exception of its coroutine.\<close>

datatype task = Scheduled | Finished "py_exception + unit"

text \<open>The fields of the executor; \<open>websocket\<close> and \<open>shutdown_event\<close> say whether the
  field holds a connection and whether the event is set.\<close>

record executor =
  running :: bool
  websocket :: bool
  hl_client :: "adapter option"
  shutdown_event :: bool
  connect_task :: "task option"

text \<open>A call of the client, and an awaited call of the client.\<close>

definition call_adapter ::
  "adapter \<Rightarrow> event list \<Rightarrow> call \<Rightarrow> (py_exception + pyval) \<times> event list" where
  "call_adapter client tr c =
     (case answers client tr c of
        Inl msg \<Rightarrow> (Inl (AdapterError msg), tr @ [Called c])
      | Inr v \<Rightarrow> (Inr v, tr @ [Called c]))"

definition await_adapter ::
  "adapter \<Rightarrow> event list \<Rightarrow> call \<Rightarrow> (py_exception + pyval) \<times> event list" where
  "await_adapter client tr c =
     (if cancelled client tr c then (Inl CancelledError, tr @ [Called c])
      else call_adapter client tr c)"

text \<open>\<^verbatim>\<open>except Exception as e: ... return False\<close>, the handler of the outer \<^verbatim>\<open>try\<close>
  of the three handlers: an exception of the body that is an \<^verbatim>\<open>Exception\<close> becomes the
  result \<^verbatim>\<open>False\<close>, any other passes on.\<close>

definition except_return_false ::
  "(py_exception + bool) \<times> event list \<Rightarrow> (py_exception + bool) \<times> event list" where
  "except_return_false r =
     (case r of
        (Inl e, tr') \<Rightarrow> if is_Exception e then (Inr False, tr') else (Inl e, tr')
      | (Inr b, tr') \<Rightarrow> (Inr b, tr'))"

subsection \<open>\<^verbatim>\<open>handle_hyperliquid_perp_trade\<close>\<close>

record trade_values =
  t_symbol :: pyval
  t_size :: pyfloat
  t_side :: String.literal
  t_reduce_only :: pyval
  t_server_execution :: pyval

text \<open>Lines 200 to 214: the values read from the config, in the order of the source, with
  every exception a read can raise. \<^verbatim>\<open>json.dumps\<close> in the log lines does not raise on
  the values of \<open>pyval\<close>.\<close>

definition read_trade :: "pyval \<Rightarrow> py_exception + trade_values" where
  "read_trade config =
     (case py_get config (STR ''position'') (PDict []) of Inl e \<Rightarrow> Inl e | Inr position \<Rightarrow>
     (case py_get config (STR ''metadata'') (PDict []) of Inl e \<Rightarrow> Inl e | Inr metadata \<Rightarrow>
     (case py_get position (STR ''symbol'') PNone of Inl e \<Rightarrow> Inl e | Inr symbol \<Rightarrow>
     (case py_get position (STR ''size'') (PInt 0) of Inl e \<Rightarrow> Inl e | Inr raw_size \<Rightarrow>
     (case py_float raw_size of Inl e \<Rightarrow> Inl e | Inr sz \<Rightarrow>
     (case py_get position (STR ''side'') (PStr (STR '''')) of Inl e \<Rightarrow> Inl e
      | Inr raw_side \<Rightarrow>
     (case py_upper raw_side of Inl e \<Rightarrow> Inl e | Inr side \<Rightarrow>
     (case py_get position (STR ''reduce_only'') (PBool False) of Inl e \<Rightarrow> Inl e
      | Inr reduce_only \<Rightarrow>
     (case py_get metadata (STR ''server_execution'') (PBool False) of Inl e \<Rightarrow> Inl e
      | Inr server_execution \<Rightarrow>
          Inr \<lparr>t_symbol = symbol, t_size = sz, t_side = side,
               t_reduce_only = reduce_only, t_server_execution = server_execution\<rparr>)))))))))"

text \<open>Lines 275 to 280: the log line of the branch that does not execute asks the client
  \<^verbatim>\<open>is_authenticated()\<close>, then the handler returns \<^verbatim>\<open>False\<close>.\<close>

definition not_executing ::
  "adapter \<Rightarrow> event list \<Rightarrow> (py_exception + bool) \<times> event list" where
  "not_executing client tr =
     (case call_adapter client tr IsAuthenticated of
        (Inl e, tr') \<Rightarrow> (Inl e, tr')
      | (Inr _, tr') \<Rightarrow> (Inr False, tr'))"

text \<open>Lines 197 to 280: the body of the outer \<^verbatim>\<open>try\<close>. The inner \<^verbatim>\<open>try\<close> around the
  awaited \<^verbatim>\<open>execute_perp_trade\<close> has its own \<^verbatim>\<open>except Exception\<close>, which returns
  \<^verbatim>\<open>False\<close>.\<close>

definition trade_try ::
  "adapter \<Rightarrow> event list \<Rightarrow> pyval \<Rightarrow> (py_exception + bool) \<times> event list" where
  "trade_try client tr config =
     (case read_trade config of
        Inl e \<Rightarrow> (Inl e, tr)
      | Inr v \<Rightarrow>
          if \<not> py_truthy (t_symbol v) then (Inr False, tr)
          else if \<not> float_truthy (t_size v) then (Inr False, tr)
          else if t_side v = STR '''' then (Inr False, tr)
          else if \<not> py_truthy (t_server_execution v) then
            (case call_adapter client tr IsAuthenticated of
               (Inl e, tr1) \<Rightarrow> (Inl e, tr1)
             | (Inr authenticated, tr1) \<Rightarrow>
                 if py_truthy authenticated then
                   (case await_adapter client tr1
                           (ExecutePerpTrade (t_symbol v) (PFloat (t_size v))
                              (PStr (t_side v)) (t_reduce_only v)) of
                      (Inl e, tr2) \<Rightarrow>
                        if is_Exception e then (Inr False, tr2) else (Inl e, tr2)
                    | (Inr _, tr2) \<Rightarrow> (Inr True, tr2))
                 else not_executing client tr1)
          else not_executing client tr)"

definition handle_hyperliquid_perp_trade ::
  "executor \<Rightarrow> event list \<Rightarrow> pyval \<Rightarrow> (py_exception + bool) \<times> event list" where
  "handle_hyperliquid_perp_trade self tr config =
     (case hl_client self of
        None \<Rightarrow> (Inr False, tr)
      | Some client \<Rightarrow>
          except_return_false (trade_try client tr config))"

subsection \<open>\<^verbatim>\<open>handle_set_hyperliquid_perp_stop_loss\<close> and
  \<^verbatim>\<open>handle_set_hyperliquid_perp_take_profit\<close>\<close>

record stop_values =
  s_symbol :: pyval
  s_size :: pyfloat
  s_trigger_price :: pyfloat
  s_side :: String.literal

text \<open>Lines 299 to 303 and 336 to 340, the same in both handlers.\<close>

definition read_stop :: "pyval \<Rightarrow> py_exception + stop_values" where
  "read_stop config =
     (case py_get config (STR ''position'') (PDict []) of Inl e \<Rightarrow> Inl e | Inr position \<Rightarrow>
     (case py_get position (STR ''symbol'') PNone of Inl e \<Rightarrow> Inl e | Inr symbol \<Rightarrow>
     (case py_get position (STR ''size'') (PInt 0) of Inl e \<Rightarrow> Inl e | Inr raw_size \<Rightarrow>
     (case py_float raw_size of Inl e \<Rightarrow> Inl e | Inr sz \<Rightarrow>
     (case py_get position (STR ''trigger_price'') (PInt 0) of Inl e \<Rightarrow> Inl e
      | Inr raw_trigger \<Rightarrow>
     (case py_float raw_trigger of Inl e \<Rightarrow> Inl e | Inr trigger_price \<Rightarrow>
     (case py_get position (STR ''side'') (PStr (STR '''')) of Inl e \<Rightarrow> Inl e
      | Inr raw_side \<Rightarrow>
     (case py_upper raw_side of Inl e \<Rightarrow> Inl e
      | Inr side \<Rightarrow>
          Inr \<lparr>s_symbol = symbol, s_size = sz, s_trigger_price = trigger_price,
               s_side = side\<rparr>))))))))"

definition stop_invalid :: "stop_values \<Rightarrow> bool" where
  "stop_invalid v \<longleftrightarrow>
     \<not> py_truthy (s_symbol v) \<or> \<not> float_truthy (s_size v)
     \<or> \<not> float_truthy (s_trigger_price v) \<or> s_side v = STR ''''"

definition stop_loss_try ::
  "adapter \<Rightarrow> event list \<Rightarrow> pyval \<Rightarrow> (py_exception + bool) \<times> event list" where
  "stop_loss_try client tr config =
     (case read_stop config of
        Inl e \<Rightarrow> (Inl e, tr)
      | Inr v \<Rightarrow>
          if stop_invalid v then (Inr False, tr)
          else
            (case await_adapter client tr
                    (SetStopLoss (s_symbol v) (PFloat (s_size v))
                       (PFloat (s_trigger_price v)) (PStr (s_side v))) of
               (Inl e, tr') \<Rightarrow> (Inl e, tr')
             | (Inr _, tr') \<Rightarrow> (Inr True, tr')))"

definition handle_set_hyperliquid_perp_stop_loss ::
  "executor \<Rightarrow> event list \<Rightarrow> pyval \<Rightarrow> (py_exception + bool) \<times> event list" where
  "handle_set_hyperliquid_perp_stop_loss self tr config =
     (case hl_client self of
        None \<Rightarrow> (Inr False, tr)
      | Some client \<Rightarrow>
          except_return_false (stop_loss_try client tr config))"

definition take_profit_try ::
  "adapter \<Rightarrow> event list \<Rightarrow> pyval \<Rightarrow> (py_exception + bool) \<times> event list" where
  "take_profit_try client tr config =
     (case read_stop config of
        Inl e \<Rightarrow> (Inl e, tr)
      | Inr v \<Rightarrow>
          if stop_invalid v then (Inr False, tr)
          else
            (case await_adapter client tr
                    (SetTakeProfit (s_symbol v) (PFloat (s_size v))
                       (PFloat (s_trigger_price v)) (PStr (s_side v))) of
               (Inl e, tr') \<Rightarrow> (Inl e, tr')
             | (Inr _, tr') \<Rightarrow> (Inr True, tr')))"

definition handle_set_hyperliquid_perp_take_profit ::
  "executor \<Rightarrow> event list \<Rightarrow> pyval \<Rightarrow> (py_exception + bool) \<times> event list" where
  "handle_set_hyperliquid_perp_take_profit self tr config =
     (case hl_client self of
        None \<Rightarrow> (Inr False, tr)
      | Some client \<Rightarrow>
          except_return_false (take_profit_try client tr config))"

subsection \<open>\<^verbatim>\<open>handle_action\<close>\<close>

text \<open>The result of a handler is dropped; an exception of it would pass on.\<close>

definition invoke ::
  "(py_exception + bool) \<times> event list \<Rightarrow> (py_exception + unit) \<times> event list" where
  "invoke r = (case r of (Inl e, tr') \<Rightarrow> (Inl e, tr') | (Inr _, tr') \<Rightarrow> (Inr (), tr'))"

text \<open>Line 160: \<^verbatim>\<open>message_type = data.get("type", "").upper()\<close>.\<close>

definition message_type :: "pyval \<Rightarrow> py_exception + String.literal" where
  "message_type data =
     (case py_get data (STR ''type'') (PStr (STR '''')) of Inl e \<Rightarrow> Inl e
      | Inr raw_type \<Rightarrow> py_upper raw_type)"

text \<open>Lines 163 and 164: \<^verbatim>\<open>action_id = data.get("data", {}).get("action_id", "").lower()\<close>.\<close>

definition action_id :: "pyval \<Rightarrow> py_exception + String.literal" where
  "action_id data =
     (case py_get data (STR ''data'') (PDict []) of Inl e \<Rightarrow> Inl e | Inr action_data \<Rightarrow>
     (case py_get action_data (STR ''action_id'') (PStr (STR '''')) of Inl e \<Rightarrow> Inl e
      | Inr raw_id \<Rightarrow> py_lower raw_id))"

text \<open>Line 165: \<^verbatim>\<open>config = data.get("data", {}).get("config", {})\<close>.\<close>

definition action_config :: "pyval \<Rightarrow> py_exception + pyval" where
  "action_config data =
     (case py_get data (STR ''data'') (PDict []) of Inl e \<Rightarrow> Inl e
      | Inr action_data \<Rightarrow> py_get action_data (STR ''config'') (PDict []))"

text \<open>Lines 156 to 180: the body of the \<^verbatim>\<open>try\<close>.\<close>

definition action_try ::
  "executor \<Rightarrow> event list \<Rightarrow> pyval \<Rightarrow> (py_exception + unit) \<times> event list" where
  "action_try self tr data =
     (case message_type data of Inl e \<Rightarrow> (Inl e, tr) | Inr mt \<Rightarrow>
      if mt = STR ''ACTION'' then
        (case action_id data of Inl e \<Rightarrow> (Inl e, tr) | Inr aid \<Rightarrow>
        (case action_config data of Inl e \<Rightarrow> (Inl e, tr)
         | Inr config \<Rightarrow>
             if aid = STR ''execute_hyperliquid_perp_trade'' then
               invoke (handle_hyperliquid_perp_trade self
                         (tr @ [Invoked TradeHandler config]) config)
             else if aid = STR ''set_hyperliquid_perp_stop_loss'' then
               invoke (handle_set_hyperliquid_perp_stop_loss self
                         (tr @ [Invoked StopLossHandler config]) config)
             else if aid = STR ''set_hyperliquid_perp_take_profit'' then
               invoke (handle_set_hyperliquid_perp_take_profit self
                         (tr @ [Invoked TakeProfitHandler config]) config)
             else (Inr (), tr)))
      else (Inr (), tr))"

text \<open>Lines 155 to 183: \<^verbatim>\<open>except Exception\<close> logs the exception, and
  \<^verbatim>\<open>handle_action\<close> returns \<^verbatim>\<open>None\<close>; an exception that is no \<^verbatim>\<open>Exception\<close>
  passes on.\<close>

definition handle_action ::
  "executor \<Rightarrow> event list \<Rightarrow> pyval \<Rightarrow> (py_exception + unit) \<times> event list" where
  "handle_action self tr data =
     (case action_try self tr data of
        (Inl e, tr') \<Rightarrow> if is_Exception e then (Inr (), tr') else (Inl e, tr')
      | (Inr u, tr') \<Rightarrow> (Inr (), tr'))"

subsection \<open>\<^verbatim>\<open>_connect\<close> and \<^verbatim>\<open>start\<close>\<close>

text \<open>
  \<^verbatim>\<open>_connect\<close> reads the server URL and the user token from the process environment
  (\<^verbatim>\<open>os.environ.get\<close>: a string, or \<^verbatim>\<open>None\<close> when the variable is not set).
\<close>

record environment =
  frac_ws_url :: "String.literal option"
  frac_user_token :: "String.literal option"

text \<open>
  The network is outside the program. A run of \<^verbatim>\<open>_connect\<close> is followed along a script
  of what the successive calls of \<^verbatim>\<open>websockets.connect\<close> meet: the connection is
  refused (any exception of the connection attempt), or it is made, delivers frames, and the
  session ends, either because the connection is closed or because the signal handler has set
  \<^verbatim>\<open>self.running\<close> to \<^verbatim>\<open>False\<close>. A frame is the value \<^verbatim>\<open>json.loads\<close> gives,
  \<open>None\<close> for a frame that is no JSON. What is observed of the network is the list of
  connection attempts, with the URL and the headers, and of the waits before a retry.
  The script does not cancel the task while \<^verbatim>\<open>_connect\<close> itself waits for the
  network; a cancellation is followed where it arrives in a handler.
\<close>

datatype ending = ConnectionClosed | SignalReceived

datatype attempt = Refused | Session "pyval option list" ending

datatype net_event =
  Connect String.literal "(String.literal \<times> String.literal) list" | Sleep nat

text \<open>Lines 119 to 131, the inner loop: a frame that is no JSON is logged and skipped, every
  other frame goes to \<^verbatim>\<open>handle_action\<close>, whose \<^verbatim>\<open>Exception\<close>s are logged; any
  other exception ends the loop and passes on.\<close>

fun receive ::
  "executor \<Rightarrow> event list \<Rightarrow> pyval option list \<Rightarrow> (py_exception + unit) \<times> event list" where
  "receive self tr [] = (Inr (), tr)"
| "receive self tr (None # frames) = receive self tr frames"
| "receive self tr (Some data # frames) =
     (case handle_action self tr data of
        (Inl e, tr') \<Rightarrow> if is_Exception e then receive self tr' frames else (Inl e, tr')
      | (Inr u, tr') \<Rightarrow> receive self tr' frames)"

text \<open>
  Lines 107 to 146, the loop \<^verbatim>\<open>while self.running\<close>. The result is \<open>Some (Inr ())\<close>
  when the loop is left and \<^verbatim>\<open>_connect\<close> returns, \<open>Some (Inl e)\<close> when an exception
  that is no \<^verbatim>\<open>Exception\<close> leaves it, and \<open>None\<close> when the script ends with the
  coroutine still waiting for its next connection.
\<close>

fun connect_loop ::
  "String.literal \<Rightarrow> (String.literal \<times> String.literal) list \<Rightarrow> attempt list \<Rightarrow> executor
    \<Rightarrow> net_event list \<Rightarrow> event list
    \<Rightarrow> (py_exception + unit) option \<times> executor \<times> net_event list \<times> event list" where
  "connect_loop full_url headers [] self net tr =
     (if running self then (None, self, net @ [Connect full_url headers], tr)
      else (Some (Inr ()), self\<lparr>websocket := False\<rparr>, net, tr))"
| "connect_loop full_url headers (Refused # script) self net tr =
     (if running self then
        connect_loop full_url headers script self (net @ [Connect full_url headers, Sleep 5]) tr
      else (Some (Inr ()), self\<lparr>websocket := False\<rparr>, net, tr))"
| "connect_loop full_url headers (Session frames ConnectionClosed # script) self net tr =
     (if running self then
        (case receive (self\<lparr>websocket := True\<rparr>) tr frames of
           (Inl e, tr') \<Rightarrow>
             (Some (Inl e), self\<lparr>websocket := True\<rparr>, net @ [Connect full_url headers], tr')
         | (Inr u, tr') \<Rightarrow>
             connect_loop full_url headers script (self\<lparr>websocket := True\<rparr>)
               (net @ [Connect full_url headers, Sleep 5]) tr')
      else (Some (Inr ()), self\<lparr>websocket := False\<rparr>, net, tr))"
| "connect_loop full_url headers (Session frames SignalReceived # script) self net tr =
     (if running self then
        (case receive (self\<lparr>websocket := True\<rparr>) tr frames of
           (Inl e, tr') \<Rightarrow>
             (Some (Inl e), self\<lparr>websocket := True\<rparr>, net @ [Connect full_url headers], tr')
         | (Inr u, tr') \<Rightarrow>
             connect_loop full_url headers script (self\<lparr>websocket := True, running := False\<rparr>)
               (net @ [Connect full_url headers]) tr')
      else (Some (Inr ()), self\<lparr>websocket := False\<rparr>, net, tr))"

text \<open>\<^verbatim>\<open>ws_url.rstrip('/')\<close>.\<close>

definition rstrip_slash :: "String.literal \<Rightarrow> String.literal" where
  "rstrip_slash s =
     String.implode (rev (dropWhile (\<lambda>c. c = CHR ''/'') (rev (String.explode s))))"

text \<open>
  \<^verbatim>\<open>_connect\<close> (lines 84 to 146; the name of the model has no underscore). A variable
  that is not set or is the empty string is a \<^verbatim>\<open>ValueError\<close>, raised before the loop.
\<close>

definition connect ::
  "environment \<Rightarrow> attempt list \<Rightarrow> executor \<Rightarrow> net_event list \<Rightarrow> event list
    \<Rightarrow> (py_exception + unit) option \<times> executor \<times> net_event list \<times> event list" where
  "connect env script self net tr =
     (case frac_ws_url env of
        None \<Rightarrow> (Some (Inl (ValueError (STR ''FRAC_WS_URL environment variable not set''))),
                 self, net, tr)
      | Some ws_url \<Rightarrow>
          if ws_url = STR '''' then
            (Some (Inl (ValueError (STR ''FRAC_WS_URL environment variable not set''))),
             self, net, tr)
          else
            (case frac_user_token env of
               None \<Rightarrow>
                 (Some (Inl (ValueError (STR ''FRAC_USER_TOKEN environment variable not set''))),
                  self, net, tr)
             | Some user_token \<Rightarrow>
                 if user_token = STR '''' then
                   (Some (Inl (ValueError
                                 (STR ''FRAC_USER_TOKEN environment variable not set''))),
                    self, net, tr)
                 else
                   connect_loop (rstrip_slash ws_url + STR ''/ws/executor/'')
                     [(STR ''Authorization'', STR ''Token '' + user_token)] script self net tr))"

text \<open>
  \<^verbatim>\<open>start\<close> (lines 361 to 368) sets the flags and hands the coroutine
  \<^verbatim>\<open>self._connect()\<close> to \<^verbatim>\<open>asyncio.create_task\<close>, which schedules it and returns the
  task at once; \<^verbatim>\<open>start\<close> does not await the task, so it returns before the first
  statement of \<^verbatim>\<open>_connect\<close> runs.
\<close>

definition start :: "executor \<Rightarrow> (py_exception + unit) \<times> executor" where
  "start self =
     (Inr (), self\<lparr>running := True, shutdown_event := False, connect_task := Some Scheduled\<rparr>)"

text \<open>
  What the event loop does with the scheduled task once the caller of \<^verbatim>\<open>start\<close> awaits
  something: it runs \<^verbatim>\<open>_connect\<close>, and when that returns or raises, the task holds the
  result or the exception.
\<close>

definition run_connect_task ::
  "environment \<Rightarrow> attempt list \<Rightarrow> executor \<Rightarrow> net_event list \<Rightarrow> event list
    \<Rightarrow> executor \<times> net_event list \<times> event list" where
  "run_connect_task env script self net tr =
     (case connect_task self of
        Some Scheduled \<Rightarrow>
          (case connect env script self net tr of
             (None, st) \<Rightarrow> st
           | (Some r, self', st) \<Rightarrow> (self'\<lparr>connect_task := Some (Finished r)\<rparr>, st))
      | _ \<Rightarrow> (self, net, tr))"

section \<open>The executor of the tests\<close>

text \<open>\<^verbatim>\<open>MockHyperliquidClient\<close> of \<^verbatim>\<open>tests/test_integration.py\<close>: authenticated, and
  every call of it returns. No call of it is cancelled.\<close>

definition mock_hl_client :: adapter where
  "mock_hl_client =
     \<lparr>answers = (\<lambda>tr c. Inr (case c of IsAuthenticated \<Rightarrow> PBool True | _ \<Rightarrow> PNone)),
      cancelled = (\<lambda>tr c. False)\<rparr>"

definition test_executor :: executor where
  "test_executor =
     \<lparr>running = False, websocket = False, hl_client = Some mock_hl_client,
      shutdown_event = False, connect_task = None\<rparr>"

text \<open>The environment \<^verbatim>\<open>tests/test_integration.py\<close> sets, and one with nothing set.\<close>

definition test_environment :: environment where
  "test_environment =
     \<lparr>frac_ws_url = Some (STR ''ws://localhost:8000''),
      frac_user_token = Some (STR ''test-token-123'')\<rparr>"

definition unset_environment :: environment where
  "unset_environment = \<lparr>frac_ws_url = None, frac_user_token = None\<rparr>"

text \<open>A client that is not authenticated, one whose coroutines all raise, and the client of
  the tests with every awaited call cancelled.\<close>

definition unauthenticated_client :: adapter where
  "unauthenticated_client =
     \<lparr>answers = (\<lambda>tr c. Inr (case c of IsAuthenticated \<Rightarrow> PBool False | _ \<Rightarrow> PNone)),
      cancelled = (\<lambda>tr c. False)\<rparr>"

definition failing_client :: adapter where
  "failing_client =
     \<lparr>answers = (\<lambda>tr c. case c of IsAuthenticated \<Rightarrow> Inr (PBool True)
                                | _ \<Rightarrow> Inl (STR ''rejected'')),
      cancelled = (\<lambda>tr c. False)\<rparr>"

definition cancelled_client :: adapter where
  "cancelled_client = mock_hl_client\<lparr>cancelled := (\<lambda>tr c. True)\<rparr>"

definition failing_executor :: executor where
  "failing_executor = test_executor\<lparr>hl_client := Some failing_client\<rparr>"

definition unauthenticated_executor :: executor where
  "unauthenticated_executor = test_executor\<lparr>hl_client := Some unauthenticated_client\<rparr>"

definition cancelled_executor :: executor where
  "cancelled_executor = test_executor\<lparr>hl_client := Some cancelled_client\<rparr>"

section \<open>What a run shows\<close>

fun is_trade_call :: "event \<Rightarrow> bool" where
  "is_trade_call (Called (ExecutePerpTrade symbol sz side reduce_only)) = True"
| "is_trade_call _ = False"

definition trade_calls :: "event list \<Rightarrow> event list" where
  "trade_calls tr = filter is_trade_call tr"

text \<open>The events a run has added to the history \<open>tr\<close> it started from.\<close>

definition new_events :: "event list \<Rightarrow> 'a \<times> event list \<Rightarrow> event list" where
  "new_events tr r = drop (length tr) (snd r)"

text \<open>The value of a key of \<^verbatim>\<open>config["position"]\<close>, \<open>None\<close> when the key, the position
  or the config is not there.\<close>

definition position_value :: "pyval \<Rightarrow> String.literal \<Rightarrow> pyval option" where
  "position_value config k =
     (case py_get config (STR ''position'') (PDict []) of
        Inr (PDict kvs) \<Rightarrow> map_of kvs k
      | _ \<Rightarrow> None)"

text \<open>What \<^verbatim>\<open>position.get(k, 0)\<close> gives the handlers for the size and the trigger
  price.\<close>

definition position_number :: "pyval \<Rightarrow> String.literal \<Rightarrow> pyval" where
  "position_number config k =
     (case position_value config k of None \<Rightarrow> PInt 0 | Some v \<Rightarrow> v)"

text \<open>
  \<open>call_raised client h evs\<close>: among the calls of \<open>evs\<close>, made one after the other from the
  history \<open>h\<close>, there is one the client answers with an exception.
  \<open>call_cancelled client h evs\<close>: among them there is an awaited call that is cancelled.
\<close>

fun call_raised :: "adapter \<Rightarrow> event list \<Rightarrow> event list \<Rightarrow> bool" where
  "call_raised client h [] = False"
| "call_raised client h (Called c # evs) =
     (isl (answers client h c) \<or> call_raised client (h @ [Called c]) evs)"
| "call_raised client h (Invoked k config # evs) =
     call_raised client (h @ [Invoked k config]) evs"

fun call_cancelled :: "adapter \<Rightarrow> event list \<Rightarrow> event list \<Rightarrow> bool" where
  "call_cancelled client h [] = False"
| "call_cancelled client h (Called c # evs) =
     ((c \<noteq> IsAuthenticated \<and> cancelled client h c)
      \<or> call_cancelled client (h @ [Called c]) evs)"
| "call_cancelled client h (Invoked k config # evs) =
     call_cancelled client (h @ [Invoked k config]) evs"

text \<open>The sign of a float, and what an event says of the size of a trade.\<close>

fun float_positive :: "pyfloat \<Rightarrow> bool" where
  "float_positive (Finite x) = (0 < x)"
| "float_positive PosInf = True"
| "float_positive NegInf = False"
| "float_positive NaN = False"

fun trade_size_positive :: "event \<Rightarrow> bool" where
  "trade_size_positive (Called (ExecutePerpTrade symbol sz side reduce_only)) =
     (case sz of PFloat f \<Rightarrow> float_positive f | _ \<Rightarrow> False)"
| "trade_size_positive _ = True"

fun trade_size_nonzero :: "event \<Rightarrow> bool" where
  "trade_size_nonzero (Called (ExecutePerpTrade symbol sz side reduce_only)) =
     (case sz of PFloat f \<Rightarrow> float_truthy f | _ \<Rightarrow> False)"
| "trade_size_nonzero _ = True"

text \<open>The size and the trigger price an event passes to the client, if it passes one.\<close>

fun size_argument :: "event \<Rightarrow> pyval option" where
  "size_argument (Called (ExecutePerpTrade symbol sz side reduce_only)) = Some sz"
| "size_argument (Called (SetStopLoss symbol sz trigger_price side)) = Some sz"
| "size_argument (Called (SetTakeProfit symbol sz trigger_price side)) = Some sz"
| "size_argument _ = None"

fun trigger_price_argument :: "event \<Rightarrow> pyval option" where
  "trigger_price_argument (Called (SetStopLoss symbol sz trigger_price side)) = Some trigger_price"
| "trigger_price_argument (Called (SetTakeProfit symbol sz trigger_price side)) =
     Some trigger_price"
| "trigger_price_argument _ = None"

subsection \<open>Decimal numerals\<close>

text \<open>
  A decimal numeral: digits, or digits, a point and digits (\<^verbatim>\<open>45000\<close>, \<^verbatim>\<open>0.01\<close>), and
  the number it denotes.
\<close>

definition decimal_digits :: "string \<Rightarrow> bool" where
  "decimal_digits cs =
     (takeWhile is_digit cs \<noteq> [] \<and>
      (case dropWhile is_digit cs of
         [] \<Rightarrow> True
       | c # fp \<Rightarrow> c = CHR ''.'' \<and> fp \<noteq> [] \<and> list_all is_digit fp))"

definition decimal_digits_value :: "string \<Rightarrow> rat" where
  "decimal_digits_value cs =
     (let ip = takeWhile is_digit cs; fp = drop 1 (dropWhile is_digit cs)
      in of_nat (digits_val (ip @ fp)) / 10 ^ length fp)"

definition decimal_numeral :: "String.literal \<Rightarrow> bool" where
  "decimal_numeral s = decimal_digits (String.explode s)"

definition decimal_value :: "String.literal \<Rightarrow> rat" where
  "decimal_value s = decimal_digits_value (String.explode s)"

subsection \<open>Messages of the tests\<close>

text \<open>The config of the first message of \<^verbatim>\<open>test_executor_trade_handling\<close>, the same with
  a lower-case side and no \<^verbatim>\<open>reduce_only\<close>, and the same marked as executed by the
  server.\<close>

definition trade_config :: pyval where
  "trade_config =
     PDict [(STR ''position'',
             PDict [(STR ''symbol'', PStr (STR ''BTC'')), (STR ''size'', PStr (STR ''0.01'')),
                    (STR ''side'', PStr (STR ''BUY'')), (STR ''reduce_only'', PBool False)])]"

definition lower_case_trade_config :: pyval where
  "lower_case_trade_config =
     PDict [(STR ''position'',
             PDict [(STR ''symbol'', PStr (STR ''BTC'')), (STR ''size'', PStr (STR ''0.01'')),
                    (STR ''side'', PStr (STR ''buy''))])]"

definition server_trade_config :: pyval where
  "server_trade_config =
     PDict [(STR ''position'',
             PDict [(STR ''symbol'', PStr (STR ''BTC'')), (STR ''size'', PStr (STR ''0.01'')),
                    (STR ''side'', PStr (STR ''BUY'')), (STR ''reduce_only'', PBool False)]),
            (STR ''metadata'', PDict [(STR ''server_execution'', PBool True)])]"

text \<open>The same position with a negative size and with the size \<^verbatim>\<open>"0.00"\<close>, and a
  stop-loss config marked as executed by the server.\<close>

definition negative_trade_config :: pyval where
  "negative_trade_config =
     PDict [(STR ''position'',
             PDict [(STR ''symbol'', PStr (STR ''BTC'')), (STR ''size'', PStr (STR ''-0.01'')),
                    (STR ''side'', PStr (STR ''BUY''))])]"

definition zero_trade_config :: pyval where
  "zero_trade_config =
     PDict [(STR ''position'',
             PDict [(STR ''symbol'', PStr (STR ''BTC'')), (STR ''size'', PStr (STR ''0.00'')),
                    (STR ''side'', PStr (STR ''BUY''))])]"

definition server_stop_config :: pyval where
  "server_stop_config =
     PDict [(STR ''position'',
             PDict [(STR ''symbol'', PStr (STR ''BTC'')), (STR ''size'', PStr (STR ''0.01'')),
                    (STR ''side'', PStr (STR ''SELL'')),
                    (STR ''trigger_price'', PStr (STR ''45000'')),
                    (STR ''reduce_only'', PBool True)]),
            (STR ''metadata'', PDict [(STR ''server_execution'', PBool True)])]"

text \<open>The config of the second message of the test, and the first message whole.\<close>

definition stop_loss_config :: pyval where
  "stop_loss_config =
     PDict [(STR ''position'',
             PDict [(STR ''symbol'', PStr (STR ''BTC'')), (STR ''size'', PStr (STR ''0.01'')),
                    (STR ''side'', PStr (STR ''SELL'')),
                    (STR ''trigger_price'', PStr (STR ''45000'')),
                    (STR ''reduce_only'', PBool True)])]"

definition trade_message :: pyval where
  "trade_message =
     PDict [(STR ''type'', PStr (STR ''ACTION'')),
            (STR ''data'',
             PDict [(STR ''action_id'', PStr (STR ''execute_hyperliquid_perp_trade'')),
                    (STR ''config'', trade_config)])]"

text \<open>A position that is in no test: a size and a price with other digits, a side in mixed
  case.\<close>

definition other_config :: pyval where
  "other_config =
     PDict [(STR ''position'',
             PDict [(STR ''symbol'', PStr (STR ''ETH'')), (STR ''size'', PStr (STR ''2.5'')),
                    (STR ''side'', PStr (STR ''Sell'')),
                    (STR ''trigger_price'', PStr (STR ''1800''))])]"

section \<open>Properties\<close>

subsection \<open>Exceptions and reads\<close>

lemma snd_except_return_false: "snd (except_return_false r) = snd r"
  by (cases r) (auto simp: except_return_false_def split: sum.splits)

lemma fst_except_return_false:
  "fst (except_return_false r) =
     (case fst r of Inl e \<Rightarrow> if is_Exception e then Inr False else Inl e | Inr b \<Rightarrow> Inr b)"
  by (cases r) (auto simp: except_return_false_def split: sum.splits)

lemma not_Exception_iff: "\<not> is_Exception e \<longleftrightarrow> e = CancelledError"
  by (cases e) simp_all

lemma py_get_Exception: "py_get d k dflt = Inl e \<Longrightarrow> is_Exception e"
  by (cases d) (auto split: option.splits)

lemma py_upper_Exception: "py_upper x = Inl e \<Longrightarrow> is_Exception e"
  by (cases x) auto

lemma py_lower_Exception: "py_lower x = Inl e \<Longrightarrow> is_Exception e"
  by (cases x) auto

lemma py_float_Exception: "py_float x = Inl e \<Longrightarrow> is_Exception e"
  by (cases x) (auto split: option.splits if_splits)

lemma read_trade_Exception: "read_trade config = Inl e \<Longrightarrow> is_Exception e"
  unfolding read_trade_def
  by (auto split: sum.splits dest: py_get_Exception py_upper_Exception py_float_Exception)

lemma read_stop_Exception: "read_stop config = Inl e \<Longrightarrow> is_Exception e"
  unfolding read_stop_def
  by (auto split: sum.splits dest: py_get_Exception py_upper_Exception py_float_Exception)

lemma message_type_Exception: "message_type data = Inl e \<Longrightarrow> is_Exception e"
  unfolding message_type_def
  by (auto split: sum.splits dest: py_get_Exception py_upper_Exception)

lemma action_id_Exception: "action_id data = Inl e \<Longrightarrow> is_Exception e"
  unfolding action_id_def
  by (auto split: sum.splits dest: py_get_Exception py_lower_Exception)

lemma action_config_Exception: "action_config data = Inl e \<Longrightarrow> is_Exception e"
  unfolding action_config_def
  by (auto split: sum.splits dest: py_get_Exception)

lemma read_trade_InrD:
  assumes "read_trade config = Inr v"
  shows "\<exists>position metadata raw_size raw_side.
           py_get config (STR ''position'') (PDict []) = Inr position
         \<and> py_get config (STR ''metadata'') (PDict []) = Inr metadata
         \<and> py_get position (STR ''symbol'') PNone = Inr (t_symbol v)
         \<and> py_get position (STR ''size'') (PInt 0) = Inr raw_size
         \<and> py_float raw_size = Inr (t_size v)
         \<and> py_get position (STR ''side'') (PStr (STR '''')) = Inr raw_side
         \<and> py_upper raw_side = Inr (t_side v)
         \<and> py_get position (STR ''reduce_only'') (PBool False) = Inr (t_reduce_only v)
         \<and> py_get metadata (STR ''server_execution'') (PBool False)
             = Inr (t_server_execution v)"
  using assms unfolding read_trade_def
  by (auto split: sum.splits)

lemma read_trade_InrI:
  assumes "py_get config (STR ''position'') (PDict []) = Inr position"
    and "py_get config (STR ''metadata'') (PDict []) = Inr metadata"
    and "py_get position (STR ''symbol'') PNone = Inr symbol"
    and "py_get position (STR ''size'') (PInt 0) = Inr raw_size"
    and "py_float raw_size = Inr sz"
    and "py_get position (STR ''side'') (PStr (STR '''')) = Inr raw_side"
    and "py_upper raw_side = Inr side"
    and "py_get position (STR ''reduce_only'') (PBool False) = Inr reduce_only"
    and "py_get metadata (STR ''server_execution'') (PBool False) = Inr sx"
  shows "read_trade config =
           Inr \<lparr>t_symbol = symbol, t_size = sz, t_side = side,
                t_reduce_only = reduce_only, t_server_execution = sx\<rparr>"
  using assms unfolding read_trade_def by simp

lemma read_stop_InrD:
  assumes "read_stop config = Inr v"
  shows "\<exists>position raw_size raw_trigger raw_side.
           py_get config (STR ''position'') (PDict []) = Inr position
         \<and> py_get position (STR ''symbol'') PNone = Inr (s_symbol v)
         \<and> py_get position (STR ''size'') (PInt 0) = Inr raw_size
         \<and> py_float raw_size = Inr (s_size v)
         \<and> py_get position (STR ''trigger_price'') (PInt 0) = Inr raw_trigger
         \<and> py_float raw_trigger = Inr (s_trigger_price v)
         \<and> py_get position (STR ''side'') (PStr (STR '''')) = Inr raw_side
         \<and> py_upper raw_side = Inr (s_side v)"
  using assms unfolding read_stop_def
  by (auto split: sum.splits)

lemma read_stop_InrI:
  assumes "py_get config (STR ''position'') (PDict []) = Inr position"
    and "py_get position (STR ''symbol'') PNone = Inr symbol"
    and "py_get position (STR ''size'') (PInt 0) = Inr raw_size"
    and "py_float raw_size = Inr sz"
    and "py_get position (STR ''trigger_price'') (PInt 0) = Inr raw_trigger"
    and "py_float raw_trigger = Inr tp"
    and "py_get position (STR ''side'') (PStr (STR '''')) = Inr raw_side"
    and "py_upper raw_side = Inr side"
  shows "read_stop config =
           Inr \<lparr>s_symbol = symbol, s_size = sz, s_trigger_price = tp, s_side = side\<rparr>"
  using assms unfolding read_stop_def by simp

lemma py_get_position_value:
  "py_get config (STR ''position'') (PDict []) = Inr position \<Longrightarrow>
   py_get position k dflt = Inr x \<Longrightarrow>
   x = (case position_value config k of None \<Rightarrow> dflt | Some v \<Rightarrow> v)"
  unfolding position_value_def
  by (cases position) (auto split: option.splits)

lemma read_trade_size:
  assumes "read_trade config = Inr v"
  shows "py_float (position_number config (STR ''size'')) = Inr (t_size v)"
proof -
  from read_trade_InrD[OF assms] obtain position raw_size where
    p: "py_get config (STR ''position'') (PDict []) = Inr position"
    and rs: "py_get position (STR ''size'') (PInt 0) = Inr raw_size"
    and fl: "py_float raw_size = Inr (t_size v)"
    by blast
  from py_get_position_value[OF p rs] fl show ?thesis
    by (simp add: position_number_def)
qed

lemma read_stop_size:
  assumes "read_stop config = Inr v"
  shows "py_float (position_number config (STR ''size'')) = Inr (s_size v)"
proof -
  from read_stop_InrD[OF assms] obtain position raw_size where
    p: "py_get config (STR ''position'') (PDict []) = Inr position"
    and rs: "py_get position (STR ''size'') (PInt 0) = Inr raw_size"
    and fl: "py_float raw_size = Inr (s_size v)"
    by blast
  from py_get_position_value[OF p rs] fl show ?thesis
    by (simp add: position_number_def)
qed

lemma read_stop_trigger_price:
  assumes "read_stop config = Inr v"
  shows "py_float (position_number config (STR ''trigger_price'')) = Inr (s_trigger_price v)"
proof -
  from read_stop_InrD[OF assms] obtain position raw_trigger where
    p: "py_get config (STR ''position'') (PDict []) = Inr position"
    and rt: "py_get position (STR ''trigger_price'') (PInt 0) = Inr raw_trigger"
    and ft: "py_float raw_trigger = Inr (s_trigger_price v)"
    by blast
  from py_get_position_value[OF p rt] ft show ?thesis
    by (simp add: position_number_def)
qed

lemma explode_empty_iff: "String.explode s = [] \<longleftrightarrow> s = STR ''''"
  by (metis String.implode_explode_eq zero_literal.rep_eq)

lemma upper_Nil_iff: "upper s = STR '''' \<longleftrightarrow> s = STR ''''"
proof -
  have "String.explode (upper s) = map String.ascii_of (map upper_char (String.explode s))"
    by (simp add: upper_def)
  then have "String.explode (upper s) = [] \<longleftrightarrow> String.explode s = []"
    by simp
  then show ?thesis by (simp add: explode_empty_iff)
qed

subsection \<open>Conversions\<close>

lemma double_overflow_pos: "0 < double_overflow"
proof -
  have "(2::rat) ^ 970 < 2 ^ 1024"
    by (rule power_strict_increasing) simp_all
  then show ?thesis by (simp add: double_overflow_def)
qed

lemma py_float_zero: "py_float (PInt 0) = Inr (Finite 0)"
  using double_overflow_pos by simp

lemma round_double_ordinary:
  assumes "1 / 2 ^ 20 \<le> \<bar>x\<bar>" and "\<bar>x\<bar> \<le> 2 ^ 20"
  shows "round_double x = Finite x"
proof -
  have "(2::rat) ^ 20 < 2 ^ 1075"
    by (rule power_strict_increasing) simp_all
  then have "double_underflow < 1 / 2 ^ 20"
    unfolding double_underflow_def by (simp add: field_simps del: power_strict_increasing_iff)
  then have low: "\<not> \<bar>x\<bar> \<le> double_underflow"
    using assms(1) by linarith
  have "(2::rat) ^ 970 \<le> 2 ^ 1023"
    by (rule power_increasing) simp_all
  moreover have "(2::rat) ^ 1024 = 2 * 2 ^ 1023"
    by (simp only: power_Suc [symmetric]) simp
  moreover have "(2::rat) ^ 20 < 2 ^ 1023"
    by (rule power_strict_increasing) simp_all
  ultimately have "2 ^ 20 < double_overflow"
    unfolding double_overflow_def by linarith
  then have high: "\<not> double_overflow \<le> \<bar>x\<bar>"
    using assms(2) by linarith
  show ?thesis
    using low high by (simp add: round_double_def)
qed

lemma round_double_zero: "round_double 0 = Finite 0"
  using double_overflow_pos by (simp add: round_double_def double_underflow_def)

lemmas float_eval = parse_float_def strip_def is_space_def lower_char_def
  floatnumber_def digits_val_def digit_val_def scale10_def is_digit_def

lemmas explode_eval = String.Literal.rep_eq zero_literal.rep_eq

lemma parse_0_01: "parse_float ''0.01'' = Some (Number (1 / 100))"
  by (simp add: float_eval)

lemma float_0_01: "py_float (PStr (STR ''0.01'')) = Inr (Finite (1 / 100))"
  using round_double_ordinary[of "1 / 100"]
  by (simp add: float_of_string_def explode_eval parse_0_01)

lemma parse_45000: "parse_float ''45000'' = Some (Number 45000)"
  by (simp add: float_eval)

lemma float_45000: "py_float (PStr (STR ''45000'')) = Inr (Finite 45000)"
  using round_double_ordinary[of 45000]
  by (simp add: float_of_string_def explode_eval parse_45000)

lemma parse_minus_0_01: "parse_float ''-0.01'' = Some (Number (- (1 / 100)))"
  by (simp add: float_eval)

lemma float_minus_0_01: "py_float (PStr (STR ''-0.01'')) = Inr (Finite (- (1 / 100)))"
  using round_double_ordinary[of "- (1 / 100)"]
  by (simp add: float_of_string_def explode_eval parse_minus_0_01)

lemma parse_0_00: "parse_float ''0.00'' = Some (Number 0)"
  by (simp add: float_eval)

lemma float_0_00: "py_float (PStr (STR ''0.00'')) = Inr (Finite 0)"
  using round_double_zero
  by (simp add: float_of_string_def explode_eval parse_0_00)

lemma parse_2_5: "parse_float ''2.5'' = Some (Number (5 / 2))"
  by (simp add: float_eval)

lemma float_2_5: "py_float (PStr (STR ''2.5'')) = Inr (Finite (5 / 2))"
  using round_double_ordinary[of "5 / 2"]
  by (simp add: float_of_string_def explode_eval parse_2_5)

lemma parse_1800: "parse_float ''1800'' = Some (Number 1800)"
  by (simp add: float_eval)

lemma float_1800: "py_float (PStr (STR ''1800'')) = Inr (Finite 1800)"
  using round_double_ordinary[of 1800]
  by (simp add: float_of_string_def explode_eval parse_1800)

lemma upper_buy: "upper (STR ''buy'') = STR ''BUY''"
  by code_simp

lemma upper_BUY: "upper (STR ''BUY'') = STR ''BUY''"
  by code_simp

lemma upper_SELL: "upper (STR ''SELL'') = STR ''SELL''"
  by code_simp

lemma upper_Sell: "upper (STR ''Sell'') = STR ''SELL''"
  by code_simp

lemma message_type_ping:
  "message_type (PDict [(STR ''type'', PStr (STR ''ping''))]) = Inr (STR ''PING'')"
  by code_simp

lemma message_type_trade: "message_type trade_message = Inr (STR ''ACTION'')"
  by code_simp

lemma action_id_trade: "action_id trade_message = Inr (STR ''execute_hyperliquid_perp_trade'')"
  by code_simp

lemma action_config_trade: "action_config trade_message = Inr trade_config"
  by (simp add: action_config_def trade_message_def)

subsection \<open>Decimal numerals are floatnumbers\<close>

lemma digit_not_space: "is_digit c \<Longrightarrow> \<not> is_space c"
  by (auto simp: is_digit_def is_space_def Let_def)

lemma digit_lower: "is_digit c \<Longrightarrow> lower_char c = c"
  by (auto simp: is_digit_def lower_char_def Let_def)

lemma point_not_digit: "\<not> is_digit CHR ''.''" "\<not> is_digit CHR ''_''" "\<not> is_digit CHR ''-''"
  "\<not> is_digit CHR ''+''" "\<not> is_digit CHR ''i''" "\<not> is_digit CHR ''n''"
  by (simp_all add: is_digit_def)

lemma digit_tail_digits:
  assumes "list_all is_digit ds"
    and "r = [] \<or> (\<not> is_digit (hd r) \<and> hd r \<noteq> CHR ''_'')"
  shows "digit_tail (ds @ r) = (ds, r)"
  using assms
proof (induction ds)
  case Nil
  then show ?case
    by (cases r rule: digit_tail.cases) auto
next
  case (Cons x xs)
  show ?case
  proof (cases "xs @ r")
    case Nil
    then show ?thesis using Cons.prems by simp
  next
    case (Cons d cs)
    have "digit_tail (x # d # cs) = (case digit_tail (d # cs) of (ds', r') \<Rightarrow> (x # ds', r'))"
      using Cons.prems by simp
    moreover have "digit_tail (d # cs) = (xs, r)"
      using Cons.IH Cons.prems Cons by simp
    ultimately show ?thesis using Cons by simp
  qed
qed

lemma digitpart_digits:
  assumes "list_all is_digit ds" and "ds \<noteq> []"
    and "r = [] \<or> (\<not> is_digit (hd r) \<and> hd r \<noteq> CHR ''_'')"
  shows "digitpart (ds @ r) = (ds, r)"
proof -
  obtain x xs where ds: "ds = x # xs" using assms(2) by (cases ds) auto
  then have "digit_tail (xs @ r) = (xs, r)"
    using digit_tail_digits[of xs r] assms(1,3) by simp
  then show ?thesis using ds assms(1) by simp
qed

lemma strip_digits:
  assumes "s \<noteq> []" and "is_digit (hd s)" and "is_digit (last s)"
  shows "strip s = s"
proof -
  have 1: "dropWhile is_space s = s"
    using assms(2) digit_not_space by (simp add: dropWhile_eq_self_iff)
  have "hd (rev s) = last s" using assms(1) by (simp add: hd_rev)
  then have 2: "dropWhile is_space (rev s) = rev s"
    using assms(3) digit_not_space by (simp add: dropWhile_eq_self_iff)
  show ?thesis by (simp add: strip_def 1 2)
qed

lemma decimal_digits_cases:
  assumes "decimal_digits s"
  obtains (whole) "s \<noteq> []" "list_all is_digit s"
      "decimal_digits_value s = of_nat (digits_val s)"
  | (point) ip fp where "s = ip @ CHR ''.'' # fp" "ip \<noteq> []" "fp \<noteq> []"
      "list_all is_digit ip" "list_all is_digit fp"
      "decimal_digits_value s = of_nat (digits_val (ip @ fp)) / 10 ^ length fp"
proof -
  let ?ip = "takeWhile is_digit s" and ?r = "dropWhile is_digit s"
  have s: "s = ?ip @ ?r" by simp
  have ip: "list_all is_digit ?ip" "?ip \<noteq> []"
    using assms by (auto simp: decimal_digits_def list_all_iff dest: set_takeWhileD)
  show ?thesis
  proof (cases ?r)
    case Nil
    then have tw: "?ip = s" using s by simp
    then have "list_all is_digit s" "s \<noteq> []" using ip by (auto simp: list_all_iff)
    moreover have "decimal_digits_value s = of_nat (digits_val s)"
      by (simp add: decimal_digits_value_def Nil tw)
    ultimately show ?thesis using whole by blast
  next
    case (Cons c fp)
    then have c: "c = CHR ''.''" and fp: "fp \<noteq> []" "list_all is_digit fp"
      using assms by (auto simp: decimal_digits_def)
    have "s = ?ip @ CHR ''.'' # fp" using s Cons c by simp
    moreover have "decimal_digits_value s = of_nat (digits_val (?ip @ fp)) / 10 ^ length fp"
      using Cons by (simp add: decimal_digits_value_def)
    ultimately show ?thesis using point ip fp by blast
  qed
qed

lemma floatnumber_decimal:
  assumes "decimal_digits s"
  shows "floatnumber s = Some (decimal_digits_value s)"
  using assms
proof (cases rule: decimal_digits_cases)
  case whole
  have "digitpart s = (s, [])"
    using digitpart_digits[of s "[]"] whole by simp
  then show ?thesis using whole by (simp add: floatnumber_def scale10_def)
next
  case (point ip fp)
  have 1: "digitpart s = (ip, CHR ''.'' # fp)"
    using digitpart_digits[of ip "CHR ''.'' # fp"] point point_not_digit by simp
  have 2: "digitpart fp = (fp, [])"
    using digitpart_digits[of fp "[]"] point by simp
  show ?thesis using point 1 2 by (simp add: floatnumber_def scale10_def)
qed

lemma parse_float_decimal:
  assumes "decimal_digits s"
  shows "parse_float s = Some (Number (decimal_digits_value s))"
proof -
  have ne: "s \<noteq> []" and hd: "is_digit (hd s)" and la: "is_digit (last s)"
    using assms
    by (cases rule: decimal_digits_cases; auto simp: list_all_iff)+
  have st: "strip s = s" using strip_digits ne hd la by simp
  obtain c cs where s: "s = c # cs" using ne by (cases s) auto
  have c: "is_digit c" using hd s by simp
  then have sign: "c \<noteq> CHR ''-''" "c \<noteq> CHR ''+''" using point_not_digit by auto
  have "hd (map lower_char s) = c" using s c digit_lower by simp
  then have w: "map lower_char s \<noteq> ''inf''" "map lower_char s \<noteq> ''infinity''"
    "map lower_char s \<noteq> ''nan''"
    using c point_not_digit by auto
  show ?thesis
    using st sign w floatnumber_decimal[OF assms] s
    by (simp add: parse_float_def)
qed

lemma py_float_decimal:
  "decimal_numeral s \<Longrightarrow> py_float (PStr s) = Inr (round_double (decimal_value s))"
  by (simp add: float_of_string_def decimal_numeral_def decimal_value_def parse_float_decimal)

lemmas decimal_eval = decimal_numeral_def decimal_digits_def decimal_value_def
  decimal_digits_value_def digits_val_def digit_val_def is_digit_def explode_eval

lemma decimal_45000: "decimal_numeral (STR ''45000'')" "decimal_value (STR ''45000'') = 45000"
  by (simp_all add: decimal_eval)

lemma decimal_0_00: "decimal_numeral (STR ''0.00'')" "decimal_value (STR ''0.00'') = 0"
  by (simp_all add: decimal_eval)

lemma decimal_2_5: "decimal_numeral (STR ''2.5'')" "decimal_value (STR ''2.5'') = 5 / 2"
  by (simp_all add: decimal_eval)

lemma decimal_1800: "decimal_numeral (STR ''1800'')" "decimal_value (STR ''1800'') = 1800"
  by (simp_all add: decimal_eval)

lemma rounded_2_5: "round_double (decimal_value (STR ''2.5'')) = Finite (5 / 2)"
  using round_double_ordinary[of "5 / 2"] by (simp add: decimal_2_5(2))

lemma rounded_1800: "round_double (decimal_value (STR ''1800'')) = Finite 1800"
  using round_double_ordinary[of 1800] by (simp add: decimal_1800(2))

subsection \<open>The runs of a handler\<close>

lemma not_executing_result:
  "fst (not_executing client tr) \<noteq> Inr True"
  "fst (not_executing client tr) \<noteq> Inl CancelledError"
  "trade_calls (snd (not_executing client tr)) = trade_calls tr"
  unfolding not_executing_def call_adapter_def trade_calls_def
  by (auto split: sum.splits)

lemma trade_try_cases:
  assumes "trade_try client tr config = (r, tr')"
  shows "(tr' = tr \<and> r \<noteq> Inr True \<and> r \<noteq> Inl CancelledError)
   \<or> (tr' = tr @ [Called IsAuthenticated] \<and> r \<noteq> Inr True \<and> r \<noteq> Inl CancelledError)
   \<or> (tr' = tr @ [Called IsAuthenticated, Called IsAuthenticated] \<and> r \<noteq> Inr True
        \<and> r \<noteq> Inl CancelledError \<and> \<not> isl (answers client tr IsAuthenticated))
   \<or> (\<exists>v. read_trade config = Inr v \<and> float_truthy (t_size v)
        \<and> \<not> isl (answers client tr IsAuthenticated)
        \<and> tr' = tr @ [Called IsAuthenticated,
                        Called (ExecutePerpTrade (t_symbol v) (PFloat (t_size v))
                                  (PStr (t_side v)) (t_reduce_only v))]
        \<and> r = (if cancelled client (tr @ [Called IsAuthenticated])
                       (ExecutePerpTrade (t_symbol v) (PFloat (t_size v))
                          (PStr (t_side v)) (t_reduce_only v))
                then Inl CancelledError
                else Inr (\<not> isl (answers client (tr @ [Called IsAuthenticated])
                                   (ExecutePerpTrade (t_symbol v) (PFloat (t_size v))
                                      (PStr (t_side v)) (t_reduce_only v))))))"
proof (cases "read_trade config")
  case (Inl e)
  then show ?thesis
    using assms read_trade_Exception[OF Inl] by (auto simp: trade_try_def)
next
  case (Inr v)
  then show ?thesis
    using assms
    unfolding trade_try_def not_executing_def call_adapter_def await_adapter_def
    by (auto split: sum.splits if_splits)
qed

lemma stop_loss_try_cases:
  assumes "stop_loss_try client tr config = (r, tr')"
  shows "(tr' = tr \<and> r \<noteq> Inr True \<and> r \<noteq> Inl CancelledError)
   \<or> (\<exists>v. read_stop config = Inr v \<and> \<not> stop_invalid v
        \<and> tr' = tr @ [Called (SetStopLoss (s_symbol v) (PFloat (s_size v))
                                  (PFloat (s_trigger_price v)) (PStr (s_side v)))]
        \<and> r = (if cancelled client tr
                       (SetStopLoss (s_symbol v) (PFloat (s_size v))
                          (PFloat (s_trigger_price v)) (PStr (s_side v)))
                then Inl CancelledError
                else case answers client tr
                            (SetStopLoss (s_symbol v) (PFloat (s_size v))
                               (PFloat (s_trigger_price v)) (PStr (s_side v))) of
                       Inl msg \<Rightarrow> Inl (AdapterError msg)
                     | Inr x \<Rightarrow> Inr True))"
proof (cases "read_stop config")
  case (Inl e)
  then show ?thesis
    using assms read_stop_Exception[OF Inl] by (auto simp: stop_loss_try_def)
next
  case (Inr v)
  then show ?thesis
    using assms
    unfolding stop_loss_try_def call_adapter_def await_adapter_def
    by (auto split: sum.splits if_splits)
qed

lemma take_profit_try_cases:
  assumes "take_profit_try client tr config = (r, tr')"
  shows "(tr' = tr \<and> r \<noteq> Inr True \<and> r \<noteq> Inl CancelledError)
   \<or> (\<exists>v. read_stop config = Inr v \<and> \<not> stop_invalid v
        \<and> tr' = tr @ [Called (SetTakeProfit (s_symbol v) (PFloat (s_size v))
                                  (PFloat (s_trigger_price v)) (PStr (s_side v)))]
        \<and> r = (if cancelled client tr
                       (SetTakeProfit (s_symbol v) (PFloat (s_size v))
                          (PFloat (s_trigger_price v)) (PStr (s_side v)))
                then Inl CancelledError
                else case answers client tr
                            (SetTakeProfit (s_symbol v) (PFloat (s_size v))
                               (PFloat (s_trigger_price v)) (PStr (s_side v))) of
                       Inl msg \<Rightarrow> Inl (AdapterError msg)
                     | Inr x \<Rightarrow> Inr True))"
proof (cases "read_stop config")
  case (Inl e)
  then show ?thesis
    using assms read_stop_Exception[OF Inl] by (auto simp: take_profit_try_def)
next
  case (Inr v)
  then show ?thesis
    using assms
    unfolding take_profit_try_def call_adapter_def await_adapter_def
    by (auto split: sum.splits if_splits)
qed

lemma except_return_false_refused:
  "r \<noteq> Inr True \<Longrightarrow> r \<noteq> Inl CancelledError \<Longrightarrow> except_return_false (r, tr') = (Inr False, tr')"
  by (cases r) (auto simp: except_return_false_def not_Exception_iff)

text \<open>What a handler returns, by the calls of its run.\<close>

lemma no_client_run:
  assumes "hl_client self = None"
  shows "handle_hyperliquid_perp_trade self tr config = (Inr False, tr)"
    and "handle_set_hyperliquid_perp_stop_loss self tr config = (Inr False, tr)"
    and "handle_set_hyperliquid_perp_take_profit self tr config = (Inr False, tr)"
  using assms
  by (simp_all add: handle_hyperliquid_perp_trade_def handle_set_hyperliquid_perp_stop_loss_def
      handle_set_hyperliquid_perp_take_profit_def)

lemma trade_run:
  assumes "hl_client self = Some client"
  shows "\<exists>evs b. snd (handle_hyperliquid_perp_trade self tr config) = tr @ evs
          \<and> fst (handle_hyperliquid_perp_trade self tr config) =
              (if call_cancelled client tr evs then Inl CancelledError else Inr b)
          \<and> (call_raised client tr evs \<longrightarrow> \<not> b)"
proof -
  obtain r tr' where t: "trade_try client tr config = (r, tr')"
    by (cases "trade_try client tr config")
  have h: "handle_hyperliquid_perp_trade self tr config = except_return_false (r, tr')"
    using assms t by (simp add: handle_hyperliquid_perp_trade_def)
  from trade_try_cases[OF t] show ?thesis
  proof (elim disjE exE conjE)
    assume "tr' = tr" "r \<noteq> Inr True" "r \<noteq> Inl CancelledError"
    then show ?thesis
      using h except_return_false_refused[of r tr']
      by (intro exI[of _ "[]"] exI[of _ False]) simp
  next
    assume "tr' = tr @ [Called IsAuthenticated]" "r \<noteq> Inr True" "r \<noteq> Inl CancelledError"
    then show ?thesis
      using h except_return_false_refused[of r tr']
      by (intro exI[of _ "[Called IsAuthenticated]"] exI[of _ False]) simp
  next
    assume "tr' = tr @ [Called IsAuthenticated, Called IsAuthenticated]" "r \<noteq> Inr True"
      "r \<noteq> Inl CancelledError"
    then show ?thesis
      using h except_return_false_refused[of r tr']
      by (intro exI[of _ "[Called IsAuthenticated, Called IsAuthenticated]"] exI[of _ False])
         simp
  next
    fix v
    let ?c = "ExecutePerpTrade (t_symbol v) (PFloat (t_size v)) (PStr (t_side v))
                (t_reduce_only v)"
    assume a: "\<not> isl (answers client tr IsAuthenticated)"
      and tr': "tr' = tr @ [Called IsAuthenticated, Called ?c]"
      and r: "r = (if cancelled client (tr @ [Called IsAuthenticated]) ?c
                   then Inl CancelledError
                   else Inr (\<not> isl (answers client (tr @ [Called IsAuthenticated]) ?c)))"
    show ?thesis
      using h a tr' r
      by (intro exI[of _ "[Called IsAuthenticated, Called ?c]"]
          exI[of _ "\<not> isl (answers client (tr @ [Called IsAuthenticated]) ?c)"])
         (simp add: except_return_false_def)
  qed
qed

lemma stop_loss_run:
  assumes "hl_client self = Some client"
  shows "\<exists>evs b. snd (handle_set_hyperliquid_perp_stop_loss self tr config) = tr @ evs
          \<and> fst (handle_set_hyperliquid_perp_stop_loss self tr config) =
              (if call_cancelled client tr evs then Inl CancelledError else Inr b)
          \<and> (call_raised client tr evs \<longrightarrow> \<not> b)"
proof -
  obtain r tr' where t: "stop_loss_try client tr config = (r, tr')"
    by (cases "stop_loss_try client tr config")
  have h: "handle_set_hyperliquid_perp_stop_loss self tr config = except_return_false (r, tr')"
    using assms t by (simp add: handle_set_hyperliquid_perp_stop_loss_def)
  from stop_loss_try_cases[OF t] show ?thesis
  proof (elim disjE exE conjE)
    assume "tr' = tr" "r \<noteq> Inr True" "r \<noteq> Inl CancelledError"
    then show ?thesis
      using h except_return_false_refused[of r tr']
      by (intro exI[of _ "[]"] exI[of _ False]) simp
  next
    fix v
    let ?c = "SetStopLoss (s_symbol v) (PFloat (s_size v)) (PFloat (s_trigger_price v))
                (PStr (s_side v))"
    assume tr': "tr' = tr @ [Called ?c]"
      and r: "r = (if cancelled client tr ?c then Inl CancelledError
                   else case answers client tr ?c of
                          Inl msg \<Rightarrow> Inl (AdapterError msg) | Inr x \<Rightarrow> Inr True)"
    show ?thesis
      using h tr' r
      by (intro exI[of _ "[Called ?c]"] exI[of _ "\<not> isl (answers client tr ?c)"])
         (auto simp: except_return_false_def split: sum.splits)
  qed
qed

lemma take_profit_run:
  assumes "hl_client self = Some client"
  shows "\<exists>evs b. snd (handle_set_hyperliquid_perp_take_profit self tr config) = tr @ evs
          \<and> fst (handle_set_hyperliquid_perp_take_profit self tr config) =
              (if call_cancelled client tr evs then Inl CancelledError else Inr b)
          \<and> (call_raised client tr evs \<longrightarrow> \<not> b)"
proof -
  obtain r tr' where t: "take_profit_try client tr config = (r, tr')"
    by (cases "take_profit_try client tr config")
  have h: "handle_set_hyperliquid_perp_take_profit self tr config
             = except_return_false (r, tr')"
    using assms t by (simp add: handle_set_hyperliquid_perp_take_profit_def)
  from take_profit_try_cases[OF t] show ?thesis
  proof (elim disjE exE conjE)
    assume "tr' = tr" "r \<noteq> Inr True" "r \<noteq> Inl CancelledError"
    then show ?thesis
      using h except_return_false_refused[of r tr']
      by (intro exI[of _ "[]"] exI[of _ False]) simp
  next
    fix v
    let ?c = "SetTakeProfit (s_symbol v) (PFloat (s_size v)) (PFloat (s_trigger_price v))
                (PStr (s_side v))"
    assume tr': "tr' = tr @ [Called ?c]"
      and r: "r = (if cancelled client tr ?c then Inl CancelledError
                   else case answers client tr ?c of
                          Inl msg \<Rightarrow> Inl (AdapterError msg) | Inr x \<Rightarrow> Inr True)"
    show ?thesis
      using h tr' r
      by (intro exI[of _ "[Called ?c]"] exI[of _ "\<not> isl (answers client tr ?c)"])
         (auto simp: except_return_false_def split: sum.splits)
  qed
qed

text \<open>The same in the form the claims use: by the new events of the run.\<close>

lemma handler_outcome:
  assumes "h \<in> {handle_hyperliquid_perp_trade, handle_set_hyperliquid_perp_stop_loss,
                 handle_set_hyperliquid_perp_take_profit}"
  shows "(\<exists>b. fst (h self tr config) = Inr b) \<or> fst (h self tr config) = Inl CancelledError"
    and "fst (h self tr config) = Inl CancelledError \<longleftrightarrow>
           (\<exists>client. hl_client self = Some client
                \<and> call_cancelled client tr (new_events tr (h self tr config)))"
    and "hl_client self = Some client
         \<Longrightarrow> call_raised client tr (new_events tr (h self tr config))
         \<Longrightarrow> \<not> call_cancelled client tr (new_events tr (h self tr config))
         \<Longrightarrow> fst (h self tr config) = Inr False"
proof -
  have run: "\<exists>evs b. snd (h self tr config) = tr @ evs
          \<and> fst (h self tr config) =
              (if call_cancelled c tr evs then Inl CancelledError else Inr b)
          \<and> (call_raised c tr evs \<longrightarrow> \<not> b)" if "hl_client self = Some c" for c
    using assms that trade_run[of self c tr config] stop_loss_run[of self c tr config]
      take_profit_run[of self c tr config]
    by auto
  have none: "h self tr config = (Inr False, tr)" if "hl_client self = None"
    using assms that no_client_run[of self tr config] by auto
  show "(\<exists>b. fst (h self tr config) = Inr b) \<or> fst (h self tr config) = Inl CancelledError"
  proof (cases "hl_client self")
    case None
    then have "fst (h self tr config) = Inr False" using none by simp
    then show ?thesis by blast
  next
    case (Some c)
    from run[OF Some] show ?thesis by (auto split: if_splits)
  qed
  show "fst (h self tr config) = Inl CancelledError \<longleftrightarrow>
           (\<exists>client. hl_client self = Some client
                \<and> call_cancelled client tr (new_events tr (h self tr config)))"
  proof (cases "hl_client self")
    case None
    then show ?thesis using none by simp
  next
    case (Some c)
    from run[OF Some] show ?thesis using Some
      by (auto simp: new_events_def split: if_splits)
  qed
  show "fst (h self tr config) = Inr False"
    if "hl_client self = Some client"
      and "call_raised client tr (new_events tr (h self tr config))"
      and "\<not> call_cancelled client tr (new_events tr (h self tr config))"
    using run[OF that(1)] that(2,3) by (auto simp: new_events_def split: if_splits)
qed

lemma handler_trace:
  "\<exists>evs. snd (handle_hyperliquid_perp_trade self tr config) = tr @ evs"
  "\<exists>evs. snd (handle_set_hyperliquid_perp_stop_loss self tr config) = tr @ evs"
  "\<exists>evs. snd (handle_set_hyperliquid_perp_take_profit self tr config) = tr @ evs"
proof -
  show "\<exists>evs. snd (handle_hyperliquid_perp_trade self tr config) = tr @ evs"
    using trade_run[of self _ tr config] no_client_run(1)[of self tr config]
    by (cases "hl_client self") auto
  show "\<exists>evs. snd (handle_set_hyperliquid_perp_stop_loss self tr config) = tr @ evs"
    using stop_loss_run[of self _ tr config] no_client_run(2)[of self tr config]
    by (cases "hl_client self") auto
  show "\<exists>evs. snd (handle_set_hyperliquid_perp_take_profit self tr config) = tr @ evs"
    using take_profit_run[of self _ tr config] no_client_run(3)[of self tr config]
    by (cases "hl_client self") auto
qed

text \<open>\<^verbatim>\<open>handle_action\<close> raises exactly when the handler it invokes does.\<close>

lemma invoke_outcome:
  assumes "(\<exists>b. fst r = Inr b) \<or> fst r = Inl CancelledError"
  shows "(case invoke r of
            (Inl e, tr') \<Rightarrow> if is_Exception e then (Inr (), tr') else (Inl e, tr')
          | (Inr u, tr') \<Rightarrow> (Inr (), tr'))
         = (if fst r = Inl CancelledError then Inl CancelledError else Inr (), snd r)"
  using assms by (cases r) (auto simp: invoke_def)

lemma call_cancelled_Invoked:
  "call_cancelled client tr (Invoked k config # evs)
     = call_cancelled client (tr @ [Invoked k config]) evs"
  by simp

lemma new_events_Invoked:
  assumes "snd r = (tr @ [Invoked k config]) @ evs"
  shows "new_events tr r = Invoked k config # new_events (tr @ [Invoked k config]) r"
  using assms by (simp add: new_events_def)

lemma handle_action_cases:
  "handle_action self tr data = (Inr (), tr)
   \<or> (\<exists>h k config. h \<in> {handle_hyperliquid_perp_trade, handle_set_hyperliquid_perp_stop_loss,
                          handle_set_hyperliquid_perp_take_profit}
        \<and> handle_action self tr data =
            (if fst (h self (tr @ [Invoked k config]) config) = Inl CancelledError
             then Inl CancelledError else Inr (),
             snd (h self (tr @ [Invoked k config]) config)))"
proof (cases "message_type data")
  case (Inl e)
  then show ?thesis
    using message_type_Exception[OF Inl] by (simp add: handle_action_def action_try_def)
next
  case mt: (Inr mt)
  show ?thesis
  proof (cases "mt = STR ''ACTION''")
    case False
    then show ?thesis using mt by (simp add: handle_action_def action_try_def)
  next
    case True
    show ?thesis
    proof (cases "action_id data")
      case (Inl e)
      then show ?thesis
        using mt True action_id_Exception[OF Inl]
        by (simp add: handle_action_def action_try_def)
    next
      case aid: (Inr aid)
      show ?thesis
      proof (cases "action_config data")
        case (Inl e)
        then show ?thesis
          using mt True aid action_config_Exception[OF Inl]
          by (simp add: handle_action_def action_try_def)
      next
        case (Inr config)
        note io = invoke_outcome[OF handler_outcome(1)]
        consider (trade) "aid = STR ''execute_hyperliquid_perp_trade''"
          | (stop) "aid = STR ''set_hyperliquid_perp_stop_loss''"
          | (take) "aid = STR ''set_hyperliquid_perp_take_profit''"
          | (other) "aid \<noteq> STR ''execute_hyperliquid_perp_trade''"
              "aid \<noteq> STR ''set_hyperliquid_perp_stop_loss''"
              "aid \<noteq> STR ''set_hyperliquid_perp_take_profit''"
          by blast
        then show ?thesis
        proof cases
          case trade
          have "handle_action self tr data =
                  (if fst (handle_hyperliquid_perp_trade self
                             (tr @ [Invoked TradeHandler config]) config) = Inl CancelledError
                   then Inl CancelledError else Inr (),
                   snd (handle_hyperliquid_perp_trade self
                          (tr @ [Invoked TradeHandler config]) config))"
            using mt True aid Inr trade
              io[of handle_hyperliquid_perp_trade self "tr @ [Invoked TradeHandler config]"
                config]
            by (simp add: handle_action_def action_try_def)
          then show ?thesis by blast
        next
          case stop
          have "handle_action self tr data =
                  (if fst (handle_set_hyperliquid_perp_stop_loss self
                             (tr @ [Invoked StopLossHandler config]) config) = Inl CancelledError
                   then Inl CancelledError else Inr (),
                   snd (handle_set_hyperliquid_perp_stop_loss self
                          (tr @ [Invoked StopLossHandler config]) config))"
            using mt True aid Inr stop
              io[of handle_set_hyperliquid_perp_stop_loss self
                "tr @ [Invoked StopLossHandler config]" config]
            by (simp add: handle_action_def action_try_def)
          then show ?thesis by blast
        next
          case take
          have "handle_action self tr data =
                  (if fst (handle_set_hyperliquid_perp_take_profit self
                             (tr @ [Invoked TakeProfitHandler config]) config)
                        = Inl CancelledError
                   then Inl CancelledError else Inr (),
                   snd (handle_set_hyperliquid_perp_take_profit self
                          (tr @ [Invoked TakeProfitHandler config]) config))"
            using mt True aid Inr take
              io[of handle_set_hyperliquid_perp_take_profit self
                "tr @ [Invoked TakeProfitHandler config]" config]
            by (simp add: handle_action_def action_try_def)
          then show ?thesis by blast
        next
          case other
          then show ?thesis
            using mt True aid Inr by (simp add: handle_action_def action_try_def)
        qed
      qed
    qed
  qed
qed

lemma handle_action_outcome:
  "fst (handle_action self tr data) = Inr ()
   \<or> fst (handle_action self tr data) = Inl CancelledError"
  "fst (handle_action self tr data) = Inl CancelledError \<longleftrightarrow>
     (\<exists>client. hl_client self = Some client
          \<and> call_cancelled client tr (new_events tr (handle_action self tr data)))"
proof -
  show "fst (handle_action self tr data) = Inr ()
      \<or> fst (handle_action self tr data) = Inl CancelledError"
    using handle_action_cases[of self tr data] by auto
  show "fst (handle_action self tr data) = Inl CancelledError \<longleftrightarrow>
     (\<exists>client. hl_client self = Some client
          \<and> call_cancelled client tr (new_events tr (handle_action self tr data)))"
    using handle_action_cases[of self tr data]
  proof (elim disjE exE conjE)
    assume "handle_action self tr data = (Inr (), tr)"
    then show ?thesis by (simp add: new_events_def)
  next
    fix h k config
    assume h: "h \<in> {handle_hyperliquid_perp_trade, handle_set_hyperliquid_perp_stop_loss,
                     handle_set_hyperliquid_perp_take_profit}"
      and a: "handle_action self tr data =
            (if fst (h self (tr @ [Invoked k config]) config) = Inl CancelledError
             then Inl CancelledError else Inr (),
             snd (h self (tr @ [Invoked k config]) config))"
    let ?r = "h self (tr @ [Invoked k config]) config"
    obtain evs where evs: "snd ?r = (tr @ [Invoked k config]) @ evs"
      using h handler_trace[of self "tr @ [Invoked k config]" config] by auto
    have "new_events tr (handle_action self tr data)
            = Invoked k config # new_events (tr @ [Invoked k config]) ?r"
      using a evs by (simp add: new_events_def)
    then show ?thesis
      using a handler_outcome(2)[OF h, of self "tr @ [Invoked k config]" config]
      by simp
  qed
qed

text \<open>The events of a run, for the arguments of its calls.\<close>

lemma trade_new_events:
  assumes "ev \<in> set (new_events tr (handle_hyperliquid_perp_trade self tr config))"
  shows "ev = Called IsAuthenticated
       \<or> (\<exists>v. read_trade config = Inr v \<and> float_truthy (t_size v)
            \<and> ev = Called (ExecutePerpTrade (t_symbol v) (PFloat (t_size v)) (PStr (t_side v))
                            (t_reduce_only v)))"
proof (cases "hl_client self")
  case None
  then show ?thesis
    using assms by (simp add: handle_hyperliquid_perp_trade_def new_events_def)
next
  case (Some client)
  obtain r tr' where t: "trade_try client tr config = (r, tr')"
    by (cases "trade_try client tr config")
  have "snd (handle_hyperliquid_perp_trade self tr config) = tr'"
    using Some t by (simp add: handle_hyperliquid_perp_trade_def snd_except_return_false)
  with trade_try_cases[OF t] assms show ?thesis
    by (auto simp: new_events_def)
qed

lemma stop_loss_new_events:
  assumes "ev \<in> set (new_events tr (handle_set_hyperliquid_perp_stop_loss self tr config))"
  shows "\<exists>v. read_stop config = Inr v
           \<and> ev = Called (SetStopLoss (s_symbol v) (PFloat (s_size v))
                           (PFloat (s_trigger_price v)) (PStr (s_side v)))"
proof (cases "hl_client self")
  case None
  then show ?thesis
    using assms by (simp add: handle_set_hyperliquid_perp_stop_loss_def new_events_def)
next
  case (Some client)
  obtain r tr' where t: "stop_loss_try client tr config = (r, tr')"
    by (cases "stop_loss_try client tr config")
  have "snd (handle_set_hyperliquid_perp_stop_loss self tr config) = tr'"
    using Some t
    by (simp add: handle_set_hyperliquid_perp_stop_loss_def snd_except_return_false)
  with stop_loss_try_cases[OF t] assms show ?thesis
    by (auto simp: new_events_def)
qed

lemma take_profit_new_events:
  assumes "ev \<in> set (new_events tr (handle_set_hyperliquid_perp_take_profit self tr config))"
  shows "\<exists>v. read_stop config = Inr v
           \<and> ev = Called (SetTakeProfit (s_symbol v) (PFloat (s_size v))
                           (PFloat (s_trigger_price v)) (PStr (s_side v)))"
proof (cases "hl_client self")
  case None
  then show ?thesis
    using assms by (simp add: handle_set_hyperliquid_perp_take_profit_def new_events_def)
next
  case (Some client)
  obtain r tr' where t: "take_profit_try client tr config = (r, tr')"
    by (cases "take_profit_try client tr config")
  have "snd (handle_set_hyperliquid_perp_take_profit self tr config) = tr'"
    using Some t
    by (simp add: handle_set_hyperliquid_perp_take_profit_def snd_except_return_false)
  with take_profit_try_cases[OF t] assms show ?thesis
    by (auto simp: new_events_def)
qed

lemma converted_arguments:
  assumes "ev \<in> set (new_events tr (handle_hyperliquid_perp_trade self tr config))
         \<or> ev \<in> set (new_events tr (handle_set_hyperliquid_perp_stop_loss self tr config))
         \<or> ev \<in> set (new_events tr (handle_set_hyperliquid_perp_take_profit self tr config))"
  shows "\<forall>x. size_argument ev = Some x \<longrightarrow>
           (\<exists>f. py_float (position_number config (STR ''size'')) = Inr f \<and> x = PFloat f)"
    and "\<forall>x. trigger_price_argument ev = Some x \<longrightarrow>
           (\<exists>f. py_float (position_number config (STR ''trigger_price'')) = Inr f
                \<and> x = PFloat f)"
  using assms trade_new_events[of ev tr self config] stop_loss_new_events[of ev tr self config]
    take_profit_new_events[of ev tr self config]
    read_trade_size[of config] read_stop_size[of config] read_stop_trigger_price[of config]
  by auto

text \<open>The run of a handler on a config that passes its validation.\<close>

lemma valid_trade_run:
  assumes "hl_client self = Some client"
    and "py_get config (STR ''position'') (PDict []) = Inr (PDict kvs)"
    and "py_get config (STR ''metadata'') (PDict []) = Inr metadata"
    and "py_get metadata (STR ''server_execution'') (PBool False) = Inr sx"
    and "\<not> py_truthy sx"
    and "answers client tr IsAuthenticated = Inr authenticated"
    and "py_truthy authenticated"
    and "map_of kvs (STR ''symbol'') = Some symbol"
    and "py_truthy symbol"
    and "map_of kvs (STR ''size'') = Some raw_size"
    and "py_float raw_size = Inr sz"
    and "float_truthy sz"
    and "map_of kvs (STR ''side'') = Some (PStr side)"
    and "side \<noteq> STR ''''"
    and "c = ExecutePerpTrade symbol (PFloat sz) (PStr (upper side))
               (case map_of kvs (STR ''reduce_only'') of None \<Rightarrow> PBool False | Some r \<Rightarrow> r)"
  shows "handle_hyperliquid_perp_trade self tr config =
           (if cancelled client (tr @ [Called IsAuthenticated]) c then Inl CancelledError
            else Inr (\<not> isl (answers client (tr @ [Called IsAuthenticated]) c)),
            tr @ [Called IsAuthenticated, Called c])"
proof -
  let ?ro = "case map_of kvs (STR ''reduce_only'') of None \<Rightarrow> PBool False | Some r \<Rightarrow> r"
  have rt: "read_trade config =
           Inr \<lparr>t_symbol = symbol, t_size = sz, t_side = upper side,
                t_reduce_only = ?ro, t_server_execution = sx\<rparr>"
    by (rule read_trade_InrI[OF assms(2) assms(3) _ _ assms(11) _ _ _ assms(4),
          where raw_side = "PStr side"])
       (simp_all add: assms split: option.splits)
  show ?thesis
    using assms(1,5,6,7,9,12,14,15) rt
    by (auto simp: handle_hyperliquid_perp_trade_def trade_try_def call_adapter_def
        await_adapter_def except_return_false_def upper_Nil_iff split: sum.splits)
qed

lemma valid_stop_run:
  assumes "hl_client self = Some client"
    and "py_get config (STR ''position'') (PDict []) = Inr (PDict kvs)"
    and "map_of kvs (STR ''symbol'') = Some symbol"
    and "py_truthy symbol"
    and "map_of kvs (STR ''size'') = Some raw_size"
    and "py_float raw_size = Inr sz"
    and "float_truthy sz"
    and "map_of kvs (STR ''trigger_price'') = Some raw_trigger"
    and "py_float raw_trigger = Inr tp"
    and "float_truthy tp"
    and "map_of kvs (STR ''side'') = Some (PStr side)"
    and "side \<noteq> STR ''''"
  shows "handle_set_hyperliquid_perp_stop_loss self tr config =
           (if cancelled client tr
                 (SetStopLoss symbol (PFloat sz) (PFloat tp) (PStr (upper side)))
            then Inl CancelledError
            else Inr (\<not> isl (answers client tr
                               (SetStopLoss symbol (PFloat sz) (PFloat tp) (PStr (upper side))))),
            tr @ [Called (SetStopLoss symbol (PFloat sz) (PFloat tp) (PStr (upper side)))])"
    and "handle_set_hyperliquid_perp_take_profit self tr config =
           (if cancelled client tr
                 (SetTakeProfit symbol (PFloat sz) (PFloat tp) (PStr (upper side)))
            then Inl CancelledError
            else Inr (\<not> isl (answers client tr
                               (SetTakeProfit symbol (PFloat sz) (PFloat tp)
                                  (PStr (upper side))))),
            tr @ [Called (SetTakeProfit symbol (PFloat sz) (PFloat tp) (PStr (upper side)))])"
proof -
  have rs: "read_stop config =
           Inr \<lparr>s_symbol = symbol, s_size = sz, s_trigger_price = tp, s_side = upper side\<rparr>"
    by (rule read_stop_InrI[OF assms(2) _ _ assms(6) _ assms(9), where raw_side = "PStr side"])
       (simp_all add: assms)
  show "handle_set_hyperliquid_perp_stop_loss self tr config =
           (if cancelled client tr
                 (SetStopLoss symbol (PFloat sz) (PFloat tp) (PStr (upper side)))
            then Inl CancelledError
            else Inr (\<not> isl (answers client tr
                               (SetStopLoss symbol (PFloat sz) (PFloat tp) (PStr (upper side))))),
            tr @ [Called (SetStopLoss symbol (PFloat sz) (PFloat tp) (PStr (upper side)))])"
    using assms(1,4,7,10,12) rs
    by (auto simp: handle_set_hyperliquid_perp_stop_loss_def stop_loss_try_def
        stop_invalid_def call_adapter_def await_adapter_def except_return_false_def
        upper_Nil_iff split: sum.splits)
  show "handle_set_hyperliquid_perp_take_profit self tr config =
           (if cancelled client tr
                 (SetTakeProfit symbol (PFloat sz) (PFloat tp) (PStr (upper side)))
            then Inl CancelledError
            else Inr (\<not> isl (answers client tr
                               (SetTakeProfit symbol (PFloat sz) (PFloat tp)
                                  (PStr (upper side))))),
            tr @ [Called (SetTakeProfit symbol (PFloat sz) (PFloat tp) (PStr (upper side)))])"
    using assms(1,4,7,10,12) rs
    by (auto simp: handle_set_hyperliquid_perp_take_profit_def take_profit_try_def
        stop_invalid_def call_adapter_def await_adapter_def except_return_false_def
        upper_Nil_iff split: sum.splits)
qed

lemma missing_stop_field_invalid:
  assumes "position_value config (STR ''symbol'') = None
         \<or> position_value config (STR ''size'') = None
         \<or> position_value config (STR ''trigger_price'') = None
         \<or> position_value config (STR ''side'') = None"
    and "read_stop config = Inr v"
  shows "stop_invalid v"
proof -
  from read_stop_InrD[OF assms(2)] obtain position raw_size raw_trigger raw_side where
    p: "py_get config (STR ''position'') (PDict []) = Inr position"
    and sy: "py_get position (STR ''symbol'') PNone = Inr (s_symbol v)"
    and rs: "py_get position (STR ''size'') (PInt 0) = Inr raw_size"
    and fl: "py_float raw_size = Inr (s_size v)"
    and rt: "py_get position (STR ''trigger_price'') (PInt 0) = Inr raw_trigger"
    and ft: "py_float raw_trigger = Inr (s_trigger_price v)"
    and sd: "py_get position (STR ''side'') (PStr (STR '''')) = Inr raw_side"
    and up: "py_upper raw_side = Inr (s_side v)"
    by blast
  note sy' = py_get_position_value[OF p sy]
  note rs' = py_get_position_value[OF p rs]
  note rt' = py_get_position_value[OF p rt]
  note sd' = py_get_position_value[OF p sd]
  from assms(1) show ?thesis
  proof (elim disjE)
    assume "position_value config (STR ''symbol'') = None"
    then show ?thesis using sy' by (simp add: stop_invalid_def)
  next
    assume "position_value config (STR ''size'') = None"
    then have "raw_size = PInt 0" using rs' by simp
    then have "s_size v = Finite 0" using fl py_float_zero by simp
    then show ?thesis by (simp add: stop_invalid_def)
  next
    assume "position_value config (STR ''trigger_price'') = None"
    then have "raw_trigger = PInt 0" using rt' by simp
    then have "s_trigger_price v = Finite 0" using ft py_float_zero by simp
    then show ?thesis by (simp add: stop_invalid_def)
  next
    assume "position_value config (STR ''side'') = None"
    then have "raw_side = PStr (STR '''')" using sd' by simp
    then have "s_side v = upper (STR '''')" using up by simp
    then show ?thesis by (simp add: stop_invalid_def upper_Nil_iff)
  qed
qed

subsection \<open>Runs of the executor of the tests\<close>

lemmas run_eval = handle_hyperliquid_perp_trade_def trade_try_def read_trade_def
  handle_set_hyperliquid_perp_stop_loss_def stop_loss_try_def
  handle_set_hyperliquid_perp_take_profit_def take_profit_try_def read_stop_def stop_invalid_def
  not_executing_def call_adapter_def await_adapter_def except_return_false_def
  test_executor_def mock_hl_client_def failing_executor_def failing_client_def
  cancelled_executor_def cancelled_client_def unauthenticated_executor_def
  unauthenticated_client_def

lemma trade_failing:
  "handle_hyperliquid_perp_trade failing_executor [] trade_config =
     (Inr False,
      [Called IsAuthenticated,
       Called (ExecutePerpTrade (PStr (STR ''BTC'')) (PFloat (Finite (1 / 100)))
                 (PStr (STR ''BUY'')) (PBool False))])"
  using float_0_01 upper_BUY
  by (simp add: run_eval trade_config_def)

lemma stop_loss_failing:
  "handle_set_hyperliquid_perp_stop_loss failing_executor [] stop_loss_config =
     (Inr False,
      [Called (SetStopLoss (PStr (STR ''BTC'')) (PFloat (Finite (1 / 100)))
                 (PFloat (Finite 45000)) (PStr (STR ''SELL'')))])"
  using float_0_01 float_45000 upper_SELL
  by (simp add: run_eval stop_loss_config_def)

lemma take_profit_failing:
  "handle_set_hyperliquid_perp_take_profit failing_executor [] stop_loss_config =
     (Inr False,
      [Called (SetTakeProfit (PStr (STR ''BTC'')) (PFloat (Finite (1 / 100)))
                 (PFloat (Finite 45000)) (PStr (STR ''SELL'')))])"
  using float_0_01 float_45000 upper_SELL
  by (simp add: run_eval stop_loss_config_def)

lemma trade_cancelled:
  "handle_hyperliquid_perp_trade cancelled_executor tr trade_config =
     (Inl CancelledError,
      tr @ [Called IsAuthenticated,
            Called (ExecutePerpTrade (PStr (STR ''BTC'')) (PFloat (Finite (1 / 100)))
                      (PStr (STR ''BUY'')) (PBool False))])"
  using float_0_01 upper_BUY
  by (simp add: run_eval trade_config_def)

lemma action_cancelled:
  "handle_action cancelled_executor [] trade_message =
     (Inl CancelledError,
      [Invoked TradeHandler trade_config, Called IsAuthenticated,
       Called (ExecutePerpTrade (PStr (STR ''BTC'')) (PFloat (Finite (1 / 100)))
                 (PStr (STR ''BUY'')) (PBool False))])"
  using message_type_trade action_id_trade action_config_trade
    trade_cancelled[of "[Invoked TradeHandler trade_config]"]
  by (simp add: handle_action_def action_try_def invoke_def)

lemma trade_mock:
  "handle_hyperliquid_perp_trade test_executor tr trade_config =
     (Inr True,
      tr @ [Called IsAuthenticated,
            Called (ExecutePerpTrade (PStr (STR ''BTC'')) (PFloat (Finite (1 / 100)))
                      (PStr (STR ''BUY'')) (PBool False))])"
  using float_0_01 upper_BUY
  by (simp add: run_eval trade_config_def)

lemma action_mock:
  "handle_action test_executor [] trade_message =
     (Inr (),
      [Invoked TradeHandler trade_config, Called IsAuthenticated,
       Called (ExecutePerpTrade (PStr (STR ''BTC'')) (PFloat (Finite (1 / 100)))
                 (PStr (STR ''BUY'')) (PBool False))])"
  using message_type_trade action_id_trade action_config_trade
    trade_mock[of "[Invoked TradeHandler trade_config]"]
  by (simp add: handle_action_def action_try_def invoke_def)

lemma trade_negative:
  "handle_hyperliquid_perp_trade test_executor [] negative_trade_config =
     (Inr True,
      [Called IsAuthenticated,
       Called (ExecutePerpTrade (PStr (STR ''BTC'')) (PFloat (Finite (- (1 / 100))))
                 (PStr (STR ''BUY'')) (PBool False))])"
  using float_minus_0_01 upper_BUY
  by (simp add: run_eval negative_trade_config_def)

lemma trade_zero:
  "handle_hyperliquid_perp_trade test_executor [] zero_trade_config = (Inr False, [])"
  using float_0_00 upper_BUY
  by (simp add: run_eval zero_trade_config_def)

subsection \<open>The trade handler\<close>

text \<open>
  C1. When the metadata of a trade config carries a true \<^verbatim>\<open>server_execution\<close> (any value
  Python takes for true), \<^verbatim>\<open>handle_hyperliquid_perp_trade\<close> returns \<^verbatim>\<open>False\<close> and the
  run holds no call of \<^verbatim>\<open>execute_perp_trade\<close> that was not there before, whatever the
  other fields, the client and the history are.
\<close>

theorem server_execution_never_executes:
  assumes "py_get config (STR ''metadata'') (PDict []) = Inr metadata"
    and "py_get metadata (STR ''server_execution'') (PBool False) = Inr sx"
    and "py_truthy sx"
  shows "fst (handle_hyperliquid_perp_trade self tr config) = Inr False
       \<and> trade_calls (snd (handle_hyperliquid_perp_trade self tr config)) = trade_calls tr"
proof (cases "hl_client self")
  case None
  then show ?thesis by (simp add: handle_hyperliquid_perp_trade_def)
next
  case (Some client)
  have body: "fst (trade_try client tr config) \<noteq> Inr True
            \<and> fst (trade_try client tr config) \<noteq> Inl CancelledError
            \<and> trade_calls (snd (trade_try client tr config)) = trade_calls tr"
  proof (cases "read_trade config")
    case (Inl e)
    then show ?thesis
      using read_trade_Exception[OF Inl] by (auto simp: trade_try_def)
  next
    case (Inr v)
    from read_trade_InrD[OF Inr] assms(1,2) have "t_server_execution v = sx"
      by auto
    then have "py_truthy (t_server_execution v)"
      using assms(3) by simp
    then show ?thesis
      using Inr not_executing_result[of client tr] by (simp add: trade_try_def)
  qed
  obtain r tr' where t: "trade_try client tr config = (r, tr')"
    by (cases "trade_try client tr config")
  show ?thesis
    using Some body t except_return_false_refused[of r tr']
    by (simp add: handle_hyperliquid_perp_trade_def)
qed

theorem server_execution_never_executes_witness:
  "py_get server_trade_config (STR ''metadata'') (PDict [])
     = Inr (PDict [(STR ''server_execution'', PBool True)])
   \<and> py_get (PDict [(STR ''server_execution'', PBool True)]) (STR ''server_execution'')
       (PBool False) = Inr (PBool True)
   \<and> py_truthy (PBool True)
   \<and> fst (handle_hyperliquid_perp_trade test_executor [] server_trade_config) = Inr False
   \<and> trade_calls (snd (handle_hyperliquid_perp_trade test_executor [] server_trade_config))
     = trade_calls []"
  using server_execution_never_executes[of server_trade_config
      "PDict [(STR ''server_execution'', PBool True)]" "PBool True" test_executor "[]"]
  by (simp add: server_trade_config_def)

text \<open>
  C2. Take a trade config whose \<^verbatim>\<open>server_execution\<close> is false or absent, a client that
  answers \<^verbatim>\<open>is_authenticated()\<close> with true, and a position with a symbol, a size and a
  side that are present, where present is what the handler tests: the symbol is true in
  Python's sense, the size converts to a float that is not zero, the side is a string that
  is not empty. Then the handler asks \<^verbatim>\<open>is_authenticated()\<close> and calls
  \<^verbatim>\<open>execute_perp_trade\<close> exactly once, with the symbol, the converted size, the side in
  upper case and \<^verbatim>\<open>reduce_only\<close>, which is \<^verbatim>\<open>False\<close> when the position has none; when
  that call succeeds, which is that it is not cancelled and the client returns, the handler
  returns \<^verbatim>\<open>True\<close>.
\<close>

theorem valid_trade_executes_once:
  assumes "hl_client self = Some client"
    and "py_get config (STR ''position'') (PDict []) = Inr (PDict kvs)"
    and "py_get config (STR ''metadata'') (PDict []) = Inr metadata"
    and "py_get metadata (STR ''server_execution'') (PBool False) = Inr sx"
    and "\<not> py_truthy sx"
    and "answers client tr IsAuthenticated = Inr authenticated"
    and "py_truthy authenticated"
    and "map_of kvs (STR ''symbol'') = Some symbol"
    and "py_truthy symbol"
    and "map_of kvs (STR ''size'') = Some raw_size"
    and "py_float raw_size = Inr sz"
    and "float_truthy sz"
    and "map_of kvs (STR ''side'') = Some (PStr side)"
    and "side \<noteq> STR ''''"
  shows "snd (handle_hyperliquid_perp_trade self tr config) =
           tr @ [Called IsAuthenticated,
                 Called (ExecutePerpTrade symbol (PFloat sz) (PStr (upper side))
                           (case map_of kvs (STR ''reduce_only'') of
                              None \<Rightarrow> PBool False | Some r \<Rightarrow> r))]
       \<and> (\<not> cancelled client (tr @ [Called IsAuthenticated])
               (ExecutePerpTrade symbol (PFloat sz) (PStr (upper side))
                  (case map_of kvs (STR ''reduce_only'') of
                     None \<Rightarrow> PBool False | Some r \<Rightarrow> r))
          \<and> (\<exists>r. answers client (tr @ [Called IsAuthenticated])
                  (ExecutePerpTrade symbol (PFloat sz) (PStr (upper side))
                     (case map_of kvs (STR ''reduce_only'') of
                        None \<Rightarrow> PBool False | Some r \<Rightarrow> r)) = Inr r)
            \<longrightarrow> fst (handle_hyperliquid_perp_trade self tr config) = Inr True)"
  using valid_trade_run[OF assms refl] by auto

theorem valid_trade_executes_once_witness:
  "snd (handle_hyperliquid_perp_trade test_executor [] lower_case_trade_config) =
     [Called IsAuthenticated,
      Called (ExecutePerpTrade (PStr (STR ''BTC'')) (PFloat (Finite (1 / 100)))
                (PStr (STR ''BUY'')) (PBool False))]
   \<and> fst (handle_hyperliquid_perp_trade test_executor [] lower_case_trade_config) = Inr True"
  using valid_trade_executes_once[of test_executor mock_hl_client lower_case_trade_config
      "[(STR ''symbol'', PStr (STR ''BTC'')), (STR ''size'', PStr (STR ''0.01'')),
        (STR ''side'', PStr (STR ''buy''))]"
      "PDict []" "PBool False" "[]" "PBool True" "PStr (STR ''BTC'')" "PStr (STR ''0.01'')"
      "Finite (1 / 100)" "STR ''buy''"]
    float_0_01 upper_buy
  by (simp add: lower_case_trade_config_def test_executor_def mock_hl_client_def)

text \<open>
  C4. When the position of a trade config has no symbol, or no size or a size that converts
  to zero, or no side, the handler returns \<^verbatim>\<open>False\<close>, it does not raise, and it makes
  no call of the client at all: the run is as it was.
\<close>

theorem missing_trade_field_refused:
  assumes "position_value config (STR ''symbol'') = None
         \<or> position_value config (STR ''size'') = None
         \<or> (\<exists>raw z. position_value config (STR ''size'') = Some raw \<and> py_float raw = Inr z
                    \<and> \<not> float_truthy z)
         \<or> position_value config (STR ''side'') = None"
  shows "handle_hyperliquid_perp_trade self tr config = (Inr False, tr)"
proof (cases "hl_client self")
  case None
  then show ?thesis by (simp add: handle_hyperliquid_perp_trade_def)
next
  case (Some client)
  have "\<exists>r. trade_try client tr config = (r, tr) \<and> r \<noteq> Inr True \<and> r \<noteq> Inl CancelledError"
  proof (cases "read_trade config")
    case (Inl e)
    then show ?thesis
      using read_trade_Exception[OF Inl] by (auto simp: trade_try_def)
  next
    case (Inr v)
    from read_trade_InrD[OF Inr] obtain position metadata raw_size raw_side where
      p: "py_get config (STR ''position'') (PDict []) = Inr position"
      and sy: "py_get position (STR ''symbol'') PNone = Inr (t_symbol v)"
      and rs: "py_get position (STR ''size'') (PInt 0) = Inr raw_size"
      and fl: "py_float raw_size = Inr (t_size v)"
      and sd: "py_get position (STR ''side'') (PStr (STR '''')) = Inr raw_side"
      and up: "py_upper raw_side = Inr (t_side v)"
      by blast
    note sy' = py_get_position_value[OF p sy]
    note rs' = py_get_position_value[OF p rs]
    note sd' = py_get_position_value[OF p sd]
    have "\<not> py_truthy (t_symbol v) \<or> \<not> float_truthy (t_size v) \<or> t_side v = STR ''''"
      using assms
    proof (elim disjE exE conjE)
      assume "position_value config (STR ''symbol'') = None"
      then show ?thesis using sy' by simp
    next
      assume "position_value config (STR ''size'') = None"
      then have "raw_size = PInt 0" using rs' by simp
      then have "t_size v = Finite 0" using fl py_float_zero by simp
      then show ?thesis by simp
    next
      fix raw z
      assume "position_value config (STR ''size'') = Some raw" "py_float raw = Inr z"
        "\<not> float_truthy z"
      then show ?thesis using rs' fl by simp
    next
      assume "position_value config (STR ''side'') = None"
      then have "raw_side = PStr (STR '''')" using sd' by simp
      then have "t_side v = upper (STR '''')" using up by simp
      then show ?thesis by (simp add: upper_Nil_iff)
    qed
    then show ?thesis using Inr by (auto simp: trade_try_def)
  qed
  then obtain r where "trade_try client tr config = (r, tr)" "r \<noteq> Inr True"
    "r \<noteq> Inl CancelledError"
    by blast
  then show ?thesis
    using Some except_return_false_refused[of r tr]
    by (simp add: handle_hyperliquid_perp_trade_def)
qed

theorem missing_trade_field_refused_witness:
  "handle_hyperliquid_perp_trade test_executor []
     (PDict [(STR ''position'',
              PDict [(STR ''symbol'', PStr (STR ''BTC'')), (STR ''size'', PInt 0),
                     (STR ''side'', PStr (STR ''BUY''))])])
   = (Inr False, [])"
  using missing_trade_field_refused[of
      "PDict [(STR ''position'',
               PDict [(STR ''symbol'', PStr (STR ''BTC'')), (STR ''size'', PInt 0),
                      (STR ''side'', PStr (STR ''BUY''))])]"
      test_executor "[]"]
    py_float_zero
  by (simp add: position_value_def)

text \<open>
  C9, as stated, does not hold. The handler tests the converted size with \<^verbatim>\<open>not size\<close>,
  which refuses zero only. The size \<^verbatim>\<open>"-0.01"\<close> passes the test, and the client of the
  tests is called with \<^verbatim>\<open>size=-0.01\<close>.
\<close>

theorem trade_size_positive_counterexample:
  "\<not> list_all trade_size_positive
       (snd (handle_hyperliquid_perp_trade test_executor [] negative_trade_config))"
  by (simp add: trade_negative)

text \<open>
  C9, amended. Whenever the trade handler calls \<^verbatim>\<open>execute_perp_trade\<close>, the size it
  passes is a float that is not zero, for every config, client and history; its sign is not
  checked.
\<close>

theorem executed_trade_size_nonzero:
  "list_all trade_size_nonzero
     (drop (length tr) (snd (handle_hyperliquid_perp_trade self tr config)))"
proof -
  have "trade_size_nonzero ev"
    if "ev \<in> set (new_events tr (handle_hyperliquid_perp_trade self tr config))" for ev
    using trade_new_events[OF that] by auto
  then show ?thesis
    by (simp add: list_all_iff new_events_def)
qed

theorem executed_trade_size_nonzero_witness:
  "list_all trade_size_nonzero
     (drop (length ([]::event list))
        (snd (handle_hyperliquid_perp_trade test_executor [] negative_trade_config)))
   \<and> snd (handle_hyperliquid_perp_trade test_executor [] negative_trade_config) =
       [Called IsAuthenticated,
        Called (ExecutePerpTrade (PStr (STR ''BTC'')) (PFloat (Finite (- (1 / 100))))
                  (PStr (STR ''BUY'')) (PBool False))]"
  using executed_trade_size_nonzero[of "[]" test_executor negative_trade_config]
  by (simp add: trade_negative)

subsection \<open>The stop-loss and take-profit handlers\<close>

text \<open>
  C5. When the position of a stop-loss or take-profit config has no symbol, no size, no
  trigger price or no side, the handler returns \<^verbatim>\<open>False\<close> and the run is as it was:
  neither \<^verbatim>\<open>set_stop_loss\<close> nor \<^verbatim>\<open>set_take_profit\<close> is called.
\<close>

theorem missing_stop_field_refused:
  assumes "position_value config (STR ''symbol'') = None
         \<or> position_value config (STR ''size'') = None
         \<or> position_value config (STR ''trigger_price'') = None
         \<or> position_value config (STR ''side'') = None"
  shows "handle_set_hyperliquid_perp_stop_loss self tr config = (Inr False, tr)
       \<and> handle_set_hyperliquid_perp_take_profit self tr config = (Inr False, tr)"
proof (cases "hl_client self")
  case None
  then show ?thesis
    by (simp add: handle_set_hyperliquid_perp_stop_loss_def
        handle_set_hyperliquid_perp_take_profit_def)
next
  case (Some client)
  show ?thesis
  proof (cases "read_stop config")
    case (Inl e)
    then show ?thesis using Some read_stop_Exception[OF Inl]
      by (simp add: handle_set_hyperliquid_perp_stop_loss_def
          handle_set_hyperliquid_perp_take_profit_def stop_loss_try_def take_profit_try_def
          except_return_false_def)
  next
    case (Inr v)
    then show ?thesis using Some missing_stop_field_invalid[OF assms Inr]
      by (simp add: handle_set_hyperliquid_perp_stop_loss_def
          handle_set_hyperliquid_perp_take_profit_def stop_loss_try_def take_profit_try_def
          except_return_false_def)
  qed
qed

theorem missing_stop_field_refused_witness:
  "handle_set_hyperliquid_perp_stop_loss test_executor [] trade_config = (Inr False, [])
   \<and> handle_set_hyperliquid_perp_take_profit test_executor [] trade_config = (Inr False, [])"
  using missing_stop_field_refused[of trade_config test_executor "[]"]
  by (simp add: position_value_def trade_config_def)

text \<open>
  C6. When the executor has a client and the position of a stop-loss or take-profit config has
  a symbol that is true in Python's sense, a size and a trigger price that convert to floats
  that are not zero, and a side that is a string that is not empty, the handler calls
  \<^verbatim>\<open>set_stop_loss\<close>, or \<^verbatim>\<open>set_take_profit\<close>, with the symbol, the converted size and
  trigger price and the side in upper case, and that is the only call it makes. Nothing is
  assumed of the metadata or of the client: \<^verbatim>\<open>server_execution\<close> is not read and
  \<^verbatim>\<open>is_authenticated()\<close> is not asked.
\<close>

theorem valid_stop_always_placed:
  assumes "hl_client self = Some client"
    and "py_get config (STR ''position'') (PDict []) = Inr (PDict kvs)"
    and "map_of kvs (STR ''symbol'') = Some symbol"
    and "py_truthy symbol"
    and "map_of kvs (STR ''size'') = Some raw_size"
    and "py_float raw_size = Inr sz"
    and "float_truthy sz"
    and "map_of kvs (STR ''trigger_price'') = Some raw_trigger"
    and "py_float raw_trigger = Inr tp"
    and "float_truthy tp"
    and "map_of kvs (STR ''side'') = Some (PStr side)"
    and "side \<noteq> STR ''''"
  shows "snd (handle_set_hyperliquid_perp_stop_loss self tr config) =
           tr @ [Called (SetStopLoss symbol (PFloat sz) (PFloat tp) (PStr (upper side)))]
       \<and> snd (handle_set_hyperliquid_perp_take_profit self tr config) =
           tr @ [Called (SetTakeProfit symbol (PFloat sz) (PFloat tp) (PStr (upper side)))]"
  using valid_stop_run[OF assms] by simp

theorem valid_stop_always_placed_witness:
  "snd (handle_set_hyperliquid_perp_stop_loss unauthenticated_executor [] server_stop_config) =
     [Called (SetStopLoss (PStr (STR ''BTC'')) (PFloat (Finite (1 / 100)))
                (PFloat (Finite 45000)) (PStr (STR ''SELL'')))]
   \<and> snd (handle_set_hyperliquid_perp_take_profit unauthenticated_executor []
            server_stop_config) =
     [Called (SetTakeProfit (PStr (STR ''BTC'')) (PFloat (Finite (1 / 100)))
                (PFloat (Finite 45000)) (PStr (STR ''SELL'')))]"
  using valid_stop_always_placed[of unauthenticated_executor unauthenticated_client
      server_stop_config
      "[(STR ''symbol'', PStr (STR ''BTC'')), (STR ''size'', PStr (STR ''0.01'')),
        (STR ''side'', PStr (STR ''SELL'')), (STR ''trigger_price'', PStr (STR ''45000'')),
        (STR ''reduce_only'', PBool True)]"
      "PStr (STR ''BTC'')" "PStr (STR ''0.01'')" "Finite (1 / 100)" "PStr (STR ''45000'')"
      "Finite 45000" "STR ''SELL''" "[]"]
    float_0_01 float_45000 upper_SELL
  by (simp add: server_stop_config_def unauthenticated_executor_def test_executor_def)

subsection \<open>The dispatcher\<close>

text \<open>
  C7. When the type of a message, in upper case, is not \<^verbatim>\<open>ACTION\<close>, or its
  \<^verbatim>\<open>action_id\<close>, in lower case, is none of the three known identifiers, (also when
  reading the type or the identifier raises), \<^verbatim>\<open>handle_action\<close> returns without an
  exception and the run is as it was: no handler is invoked and no call is made.
\<close>

theorem unrouted_message_dropped:
  assumes "message_type data \<noteq> Inr (STR ''ACTION'')
         \<or> action_id data \<notin> {Inr (STR ''execute_hyperliquid_perp_trade''),
                                Inr (STR ''set_hyperliquid_perp_stop_loss''),
                                Inr (STR ''set_hyperliquid_perp_take_profit'')}"
  shows "handle_action self tr data = (Inr (), tr)"
proof (cases "message_type data")
  case (Inl e)
  then show ?thesis
    using message_type_Exception[OF Inl] by (simp add: handle_action_def action_try_def)
next
  case mt: (Inr mt)
  show ?thesis
  proof (cases "mt = STR ''ACTION''")
    case False
    then show ?thesis using mt by (simp add: handle_action_def action_try_def)
  next
    case True
    show ?thesis
    proof (cases "action_id data")
      case (Inl e)
      then show ?thesis
        using mt True action_id_Exception[OF Inl]
        by (simp add: handle_action_def action_try_def)
    next
      case aid: (Inr aid)
      then have other: "aid \<noteq> STR ''execute_hyperliquid_perp_trade''"
        "aid \<noteq> STR ''set_hyperliquid_perp_stop_loss''"
        "aid \<noteq> STR ''set_hyperliquid_perp_take_profit''"
        using assms mt True by auto
      show ?thesis
      proof (cases "action_config data")
        case (Inl e)
        then show ?thesis
          using mt True aid action_config_Exception[OF Inl]
          by (simp add: handle_action_def action_try_def)
      next
        case (Inr config)
        then show ?thesis
          using mt True aid other by (simp add: handle_action_def action_try_def)
      qed
    qed
  qed
qed

theorem unrouted_message_dropped_witness:
  "handle_action test_executor [] (PDict [(STR ''type'', PStr (STR ''ping''))]) = (Inr (), [])"
  using unrouted_message_dropped[of "PDict [(STR ''type'', PStr (STR ''ping''))]"
      test_executor "[]"]
    message_type_ping
  by simp

text \<open>
  C8, as stated, does not hold. The handlers and \<^verbatim>\<open>handle_action\<close> catch
  \<^verbatim>\<open>Exception\<close>, and \<^verbatim>\<open>asyncio.CancelledError\<close> is none. When the task is cancelled
  while the trade handler awaits \<^verbatim>\<open>execute_perp_trade\<close>, the \<^verbatim>\<open>CancelledError\<close> leaves
  the handler and \<^verbatim>\<open>handle_action\<close>: on the first message of the tests, with the client of
  the tests, \<^verbatim>\<open>handle_action\<close> raises.
\<close>

theorem cancellation_not_caught:
  "fst (handle_action cancelled_executor [] trade_message) = Inl CancelledError"
  by (simp add: action_cancelled)

text \<open>
  C8, amended. For every message, executor and history, \<^verbatim>\<open>handle_action\<close> raises no
  \<^verbatim>\<open>Exception\<close>: it returns, or it raises \<^verbatim>\<open>asyncio.CancelledError\<close>, and it raises
  that exactly when an awaited call of the client in its run is cancelled. The same holds of
  each of the three handlers, which returns \<^verbatim>\<open>True\<close> or \<^verbatim>\<open>False\<close> when it returns. When a
  call a handler makes of the client raises an exception and no awaited call is cancelled, the
  handler returns \<^verbatim>\<open>False\<close>.
\<close>

theorem only_cancellation_propagates:
  "(fst (handle_action self tr data) = Inr ()
      \<or> fst (handle_action self tr data) = Inl CancelledError)
   \<and> (fst (handle_action self tr data) = Inl CancelledError \<longleftrightarrow>
        (\<exists>client. hl_client self = Some client
             \<and> call_cancelled client tr (new_events tr (handle_action self tr data))))
   \<and> (h \<in> {handle_hyperliquid_perp_trade, handle_set_hyperliquid_perp_stop_loss,
             handle_set_hyperliquid_perp_take_profit} \<longrightarrow>
        ((\<exists>b. fst (h self tr config) = Inr b) \<or> fst (h self tr config) = Inl CancelledError)
      \<and> (fst (h self tr config) = Inl CancelledError \<longleftrightarrow>
           (\<exists>client. hl_client self = Some client
                \<and> call_cancelled client tr (new_events tr (h self tr config))))
      \<and> (\<forall>client. hl_client self = Some client
              \<and> call_raised client tr (new_events tr (h self tr config))
              \<and> \<not> call_cancelled client tr (new_events tr (h self tr config))
             \<longrightarrow> fst (h self tr config) = Inr False))"
proof (intro conjI impI allI)
  show "fst (handle_action self tr data) = Inr ()
      \<or> fst (handle_action self tr data) = Inl CancelledError"
    by (rule handle_action_outcome(1))
  show "fst (handle_action self tr data) = Inl CancelledError \<longleftrightarrow>
        (\<exists>client. hl_client self = Some client
             \<and> call_cancelled client tr (new_events tr (handle_action self tr data)))"
    by (rule handle_action_outcome(2))
next
  assume h: "h \<in> {handle_hyperliquid_perp_trade, handle_set_hyperliquid_perp_stop_loss,
                   handle_set_hyperliquid_perp_take_profit}"
  show "(\<exists>b. fst (h self tr config) = Inr b) \<or> fst (h self tr config) = Inl CancelledError"
    by (rule handler_outcome(1)[OF h])
  show "fst (h self tr config) = Inl CancelledError \<longleftrightarrow>
           (\<exists>client. hl_client self = Some client
                \<and> call_cancelled client tr (new_events tr (h self tr config)))"
    by (rule handler_outcome(2)[OF h])
  fix client
  assume "hl_client self = Some client
              \<and> call_raised client tr (new_events tr (h self tr config))
              \<and> \<not> call_cancelled client tr (new_events tr (h self tr config))"
  then show "fst (h self tr config) = Inr False"
    using handler_outcome(3)[OF h] by blast
qed

theorem only_cancellation_propagates_witness:
  "fst (handle_action test_executor [] trade_message) = Inr ()
   \<and> \<not> call_cancelled mock_hl_client [] (new_events [] (handle_action test_executor []
                                                           trade_message))
   \<and> call_cancelled cancelled_client []
        (new_events [] (handle_action cancelled_executor [] trade_message))
   \<and> fst (handle_action cancelled_executor [] trade_message) = Inl CancelledError
   \<and> call_raised failing_client []
        (new_events [] (handle_hyperliquid_perp_trade failing_executor [] trade_config))
   \<and> fst (handle_hyperliquid_perp_trade failing_executor [] trade_config) = Inr False
   \<and> call_raised failing_client []
        (new_events [] (handle_set_hyperliquid_perp_stop_loss failing_executor []
                          stop_loss_config))
   \<and> fst (handle_set_hyperliquid_perp_stop_loss failing_executor [] stop_loss_config)
       = Inr False
   \<and> call_raised failing_client []
        (new_events [] (handle_set_hyperliquid_perp_take_profit failing_executor []
                          stop_loss_config))
   \<and> fst (handle_set_hyperliquid_perp_take_profit failing_executor [] stop_loss_config)
       = Inr False"
  using only_cancellation_propagates[of test_executor "[]" trade_message
      handle_hyperliquid_perp_trade trade_config]
    only_cancellation_propagates[of cancelled_executor "[]" trade_message
      handle_hyperliquid_perp_trade trade_config]
    only_cancellation_propagates[of failing_executor "[]" trade_message
      handle_hyperliquid_perp_trade trade_config]
    only_cancellation_propagates[of failing_executor "[]" trade_message
      handle_set_hyperliquid_perp_stop_loss stop_loss_config]
    only_cancellation_propagates[of failing_executor "[]" trade_message
      handle_set_hyperliquid_perp_take_profit stop_loss_config]
    action_mock action_cancelled trade_failing stop_loss_failing take_profit_failing
  by (simp add: new_events_def test_executor_def mock_hl_client_def cancelled_executor_def
      cancelled_client_def failing_executor_def failing_client_def)

subsection \<open>Sizes and trigger prices given as strings\<close>

text \<open>
  C10, as stated, does not hold. \<^verbatim>\<open>"0.00"\<close> is a decimal numeral; \<^verbatim>\<open>float\<close> accepts it
  and gives zero, and the handler refuses a size that is zero: with the size \<^verbatim>\<open>"0.00"\<close>
  and the other fields of the test, no call of the client is made.
\<close>

theorem zero_decimal_refused:
  "decimal_numeral (STR ''0.00'')
   \<and> position_value zero_trade_config (STR ''size'') = Some (PStr (STR ''0.00''))
   \<and> handle_hyperliquid_perp_trade test_executor [] zero_trade_config = (Inr False, [])"
  using decimal_0_00(1) trade_zero
  by (simp add: position_value_def zero_trade_config_def)

text \<open>
  C10, amended. \<^verbatim>\<open>float\<close> accepts every decimal numeral given as a string and returns
  the float of the number it denotes. Take a config whose size is such a string and does not
  convert to zero, and that is valid otherwise (a client, a symbol, a side). Then the trade
  handler, when the server does not execute and the client is authenticated, calls
  \<^verbatim>\<open>execute_perp_trade\<close> with that float as the size; and when the trigger price is such a
  string too, the stop-loss and the take-profit handler call \<^verbatim>\<open>set_stop_loss\<close> and
  \<^verbatim>\<open>set_take_profit\<close> with the two floats. And whatever the config \<open>config'\<close> is, the
  size and the trigger price of every call a handler makes are floats, the ones
  \<^verbatim>\<open>float\<close> gives for the fields of the position, never the strings.
\<close>

theorem decimal_strings_converted:
  assumes "decimal_numeral sz"
    and "float_truthy (round_double (decimal_value sz))"
    and "hl_client self = Some client"
    and "py_get config (STR ''position'') (PDict []) = Inr (PDict kvs)"
    and "map_of kvs (STR ''symbol'') = Some symbol"
    and "py_truthy symbol"
    and "map_of kvs (STR ''size'') = Some (PStr sz)"
    and "map_of kvs (STR ''side'') = Some (PStr side)"
    and "side \<noteq> STR ''''"
  shows "py_float (PStr sz) = Inr (round_double (decimal_value sz))
       \<and> (py_get config (STR ''metadata'') (PDict []) = Inr metadata
            \<and> py_get metadata (STR ''server_execution'') (PBool False) = Inr sx
            \<and> \<not> py_truthy sx
            \<and> answers client tr IsAuthenticated = Inr authenticated
            \<and> py_truthy authenticated
          \<longrightarrow> snd (handle_hyperliquid_perp_trade self tr config) =
                tr @ [Called IsAuthenticated,
                      Called (ExecutePerpTrade symbol
                                (PFloat (round_double (decimal_value sz)))
                                (PStr (upper side))
                                (case map_of kvs (STR ''reduce_only'') of
                                   None \<Rightarrow> PBool False | Some r \<Rightarrow> r))])
       \<and> (map_of kvs (STR ''trigger_price'') = Some (PStr tp)
            \<and> decimal_numeral tp
            \<and> float_truthy (round_double (decimal_value tp))
          \<longrightarrow> py_float (PStr tp) = Inr (round_double (decimal_value tp))
            \<and> snd (handle_set_hyperliquid_perp_stop_loss self tr config) =
                tr @ [Called (SetStopLoss symbol
                                (PFloat (round_double (decimal_value sz)))
                                (PFloat (round_double (decimal_value tp)))
                                (PStr (upper side)))]
            \<and> snd (handle_set_hyperliquid_perp_take_profit self tr config) =
                tr @ [Called (SetTakeProfit symbol
                                (PFloat (round_double (decimal_value sz)))
                                (PFloat (round_double (decimal_value tp)))
                                (PStr (upper side)))])
       \<and> (ev \<in> set (new_events tr' (handle_hyperliquid_perp_trade self' tr' config'))
            \<union> set (new_events tr' (handle_set_hyperliquid_perp_stop_loss self' tr' config'))
            \<union> set (new_events tr' (handle_set_hyperliquid_perp_take_profit self' tr' config'))
          \<longrightarrow> (\<forall>x. size_argument ev = Some x \<longrightarrow>
                  (\<exists>f. py_float (position_number config' (STR ''size'')) = Inr f
                       \<and> x = PFloat f))
            \<and> (\<forall>x. trigger_price_argument ev = Some x \<longrightarrow>
                  (\<exists>f. py_float (position_number config' (STR ''trigger_price'')) = Inr f
                       \<and> x = PFloat f)))"
proof (intro conjI impI)
  show conv: "py_float (PStr sz) = Inr (round_double (decimal_value sz))"
    by (rule py_float_decimal[OF assms(1)])
  {
    assume "py_get config (STR ''metadata'') (PDict []) = Inr metadata
            \<and> py_get metadata (STR ''server_execution'') (PBool False) = Inr sx
            \<and> \<not> py_truthy sx
            \<and> answers client tr IsAuthenticated = Inr authenticated
            \<and> py_truthy authenticated"
    then show "snd (handle_hyperliquid_perp_trade self tr config) =
                tr @ [Called IsAuthenticated,
                      Called (ExecutePerpTrade symbol
                                (PFloat (round_double (decimal_value sz)))
                                (PStr (upper side))
                                (case map_of kvs (STR ''reduce_only'') of
                                   None \<Rightarrow> PBool False | Some r \<Rightarrow> r))]"
      using valid_trade_run[OF assms(3,4) _ _ _ _ _ assms(5,6,7) conv assms(2,8,9) refl,
          of metadata sx tr authenticated]
      by simp
  }
  {
    assume a: "map_of kvs (STR ''trigger_price'') = Some (PStr tp)
            \<and> decimal_numeral tp
            \<and> float_truthy (round_double (decimal_value tp))"
    then have convt: "py_float (PStr tp) = Inr (round_double (decimal_value tp))"
      using py_float_decimal by blast
    then show "py_float (PStr tp) = Inr (round_double (decimal_value tp))" .
    note run = valid_stop_run[OF assms(3,4,5,6,7) conv assms(2) _ convt _ assms(8,9), of tr]
    show "snd (handle_set_hyperliquid_perp_stop_loss self tr config) =
                tr @ [Called (SetStopLoss symbol
                                (PFloat (round_double (decimal_value sz)))
                                (PFloat (round_double (decimal_value tp)))
                                (PStr (upper side)))]"
      using run(1) a by simp
    show "snd (handle_set_hyperliquid_perp_take_profit self tr config) =
                tr @ [Called (SetTakeProfit symbol
                                (PFloat (round_double (decimal_value sz)))
                                (PFloat (round_double (decimal_value tp)))
                                (PStr (upper side)))]"
      using run(2) a by simp
  }
  {
    assume "ev \<in> set (new_events tr' (handle_hyperliquid_perp_trade self' tr' config'))
            \<union> set (new_events tr' (handle_set_hyperliquid_perp_stop_loss self' tr' config'))
            \<union> set (new_events tr' (handle_set_hyperliquid_perp_take_profit self' tr' config'))"
    then have ev: "ev \<in> set (new_events tr' (handle_hyperliquid_perp_trade self' tr' config'))
         \<or> ev \<in> set (new_events tr' (handle_set_hyperliquid_perp_stop_loss self' tr' config'))
         \<or> ev \<in> set (new_events tr' (handle_set_hyperliquid_perp_take_profit self' tr'
                                         config'))"
      by blast
    show "\<forall>x. size_argument ev = Some x \<longrightarrow>
                  (\<exists>f. py_float (position_number config' (STR ''size'')) = Inr f
                       \<and> x = PFloat f)"
      by (rule converted_arguments(1)[OF ev])
    show "\<forall>x. trigger_price_argument ev = Some x \<longrightarrow>
                  (\<exists>f. py_float (position_number config' (STR ''trigger_price'')) = Inr f
                       \<and> x = PFloat f)"
      by (rule converted_arguments(2)[OF ev])
  }
qed

theorem decimal_strings_converted_witness:
  "py_float (PStr (STR ''2.5'')) = Inr (round_double (decimal_value (STR ''2.5'')))
   \<and> round_double (decimal_value (STR ''2.5'')) = Finite (5 / 2)
   \<and> round_double (decimal_value (STR ''1800'')) = Finite 1800
   \<and> snd (handle_hyperliquid_perp_trade test_executor [] other_config) =
       [Called IsAuthenticated,
        Called (ExecutePerpTrade (PStr (STR ''ETH'')) (PFloat (Finite (5 / 2)))
                  (PStr (STR ''SELL'')) (PBool False))]
   \<and> snd (handle_set_hyperliquid_perp_stop_loss test_executor [] other_config) =
       [Called (SetStopLoss (PStr (STR ''ETH'')) (PFloat (Finite (5 / 2)))
                  (PFloat (Finite 1800)) (PStr (STR ''SELL'')))]
   \<and> snd (handle_set_hyperliquid_perp_take_profit test_executor [] other_config) =
       [Called (SetTakeProfit (PStr (STR ''ETH'')) (PFloat (Finite (5 / 2)))
                  (PFloat (Finite 1800)) (PStr (STR ''SELL'')))]
   \<and> size_argument (Called (ExecutePerpTrade (PStr (STR ''ETH'')) (PFloat (Finite (5 / 2)))
                              (PStr (STR ''SELL'')) (PBool False)))
       = Some (PFloat (Finite (5 / 2)))
   \<and> py_float (position_number other_config (STR ''size'')) = Inr (Finite (5 / 2))"
  using decimal_strings_converted[of "STR ''2.5''" test_executor mock_hl_client other_config
      "[(STR ''symbol'', PStr (STR ''ETH'')), (STR ''size'', PStr (STR ''2.5'')),
        (STR ''side'', PStr (STR ''Sell'')), (STR ''trigger_price'', PStr (STR ''1800''))]"
      "PStr (STR ''ETH'')" "STR ''Sell''" "PDict []" "PBool False" "[]" "PBool True"
      "STR ''1800''"
      "Called (ExecutePerpTrade (PStr (STR ''ETH'')) (PFloat (Finite (5 / 2)))
                 (PStr (STR ''SELL'')) (PBool False))"
      "[]" test_executor other_config]
    decimal_2_5(1) decimal_1800(1) rounded_2_5 rounded_1800 upper_Sell float_2_5
  by (simp add: other_config_def test_executor_def mock_hl_client_def new_events_def
      position_number_def position_value_def del: py_float.simps)

subsection \<open>Missing configuration\<close>

lemma connect_unconfigured:
  assumes "frac_ws_url env \<in> {None, Some (STR '''')}
         \<or> frac_user_token env \<in> {None, Some (STR '''')}"
  shows "\<exists>msg. connect env script self net tr = (Some (Inl (ValueError msg)), self, net, tr)"
  using assms by (auto simp: connect_def split: option.splits)

text \<open>
  C3, as stated, does not hold. With no \<^verbatim>\<open>FRAC_WS_URL\<close> in the environment,
  \<^verbatim>\<open>start()\<close> returns without an exception: it has only scheduled the task. The
  \<^verbatim>\<open>ValueError\<close> is raised when the event loop runs the task, and it stays in the task.
\<close>

theorem configuration_error_not_surfaced:
  "frac_ws_url unset_environment = None
   \<and> fst (start test_executor) = Inr ()
   \<and> connect_task (snd (start test_executor)) = Some Scheduled
   \<and> run_connect_task unset_environment [] (snd (start test_executor)) [] [] =
       (test_executor\<lparr>running := True, shutdown_event := False,
          connect_task :=
            Some (Finished (Inl (ValueError
                                   (STR ''FRAC_WS_URL environment variable not set''))))\<rparr>,
        [], [])"
  by (simp add: start_def run_connect_task_def connect_def unset_environment_def
      test_executor_def)

text \<open>
  C3, amended. When the server URL or the user token is not set, or is empty,
  \<^verbatim>\<open>_connect\<close> raises a \<^verbatim>\<open>ValueError\<close> before any connection attempt, whatever the
  network would do: the executor, the list of connection attempts and the run are as they
  were. \<^verbatim>\<open>start()\<close> returns normally; the error is raised in the background task that
  \<^verbatim>\<open>start()\<close> has scheduled, and the task holds it.
\<close>

theorem configuration_error_in_task:
  assumes "frac_ws_url env \<in> {None, Some (STR '''')}
         \<or> frac_user_token env \<in> {None, Some (STR '''')}"
  shows "(\<exists>msg. connect env script self net tr = (Some (Inl (ValueError msg)), self, net, tr))
       \<and> fst (start self) = Inr ()
       \<and> (\<exists>msg. run_connect_task env script (snd (start self)) net tr =
                 ((snd (start self))\<lparr>connect_task := Some (Finished (Inl (ValueError msg)))\<rparr>,
                  net, tr))"
proof -
  from connect_unconfigured[OF assms] obtain msg where
    "connect env script (snd (start self)) net tr =
       (Some (Inl (ValueError msg)), snd (start self), net, tr)"
    by blast
  then have "run_connect_task env script (snd (start self)) net tr =
       ((snd (start self))\<lparr>connect_task := Some (Finished (Inl (ValueError msg)))\<rparr>, net, tr)"
    by (simp add: run_connect_task_def start_def)
  then show ?thesis
    using connect_unconfigured[OF assms, of script self net tr] by (auto simp: start_def)
qed

theorem configuration_error_in_task_witness:
  "connect (test_environment\<lparr>frac_user_token := None\<rparr>) [Refused] test_executor [] [] =
     (Some (Inl (ValueError (STR ''FRAC_USER_TOKEN environment variable not set''))),
      test_executor, [], [])
   \<and> fst (start test_executor) = Inr ()"
  using configuration_error_in_task[of "test_environment\<lparr>frac_user_token := None\<rparr>"
      "[Refused]" test_executor "[]" "[]"]
  by (simp add: connect_def test_environment_def)

end
